theory Spec2Isabelle
  imports Main "HOL-Library.Sublist"
begin

section \<open>Rate limiter: class RateLimiter of rate-limiter.ts\<close>

text \<open>
  Times and delays are JavaScript numbers holding milliseconds; they are modelled as
  unbounded integers (\<open>int\<close>), a \<open>Date\<close> as its \<open>getTime()\<close> value and
  \<open>Date | null\<close> as \<open>int option\<close>. Floating point (fractions, NaN, the loss of
  precision beyond \<open>2^53\<close>) is outside the model. Every call of \<open>Date.now()\<close> in
  the source is a parameter of the model, one per call site, so that nothing is assumed about
  how the clock moves between two reads.
\<close>

record AccountRateLimitState =
  consecutiveErrors :: nat
  resetAt :: "int option"
  currentBackoffMs :: int
  lastRequestAt :: "int option"

record RateLimiter =
  accountStates :: "string \<rightharpoonup> AccountRateLimitState"
  baseDelayMs :: int
  maxDelayMs :: int

text \<open>The constructor: an empty table and the two delays, stored unchecked.\<close>

definition new_RateLimiter :: "int \<Rightarrow> int \<Rightarrow> RateLimiter" where
  "new_RateLimiter baseDelay maxDelay =
     \<lparr>accountStates = Map.empty, baseDelayMs = baseDelay, maxDelayMs = maxDelay\<rparr>"

text \<open>
  \<open>getAccountState\<close> returns the state object of the account and, for an unseen
  account, stores a fresh one first. The source hands out a reference into the table, so
  every later field assignment is written back into the table by the caller below.
\<close>

definition getAccountState :: "RateLimiter \<Rightarrow> string \<Rightarrow> AccountRateLimitState \<times> RateLimiter" where
  "getAccountState rl accountId =
     (case accountStates rl accountId of
        Some state \<Rightarrow> (state, rl)
      | None \<Rightarrow>
          (let state = \<lparr>consecutiveErrors = 0, resetAt = None,
                         currentBackoffMs = baseDelayMs rl, lastRequestAt = None\<rparr>
           in (state, rl\<lparr>accountStates := (accountStates rl)(accountId \<mapsto> state)\<rparr>)))"

definition setAccountState :: "RateLimiter \<Rightarrow> string \<Rightarrow> AccountRateLimitState \<Rightarrow> RateLimiter" where
  "setAccountState rl accountId state =
     rl\<lparr>accountStates := (accountStates rl)(accountId \<mapsto> state)\<rparr>"

text \<open>
  The second half of \<open>shouldWait\<close> (source lines 72-81): the exponential backoff
  check on the state as it is after the reset-time check; \<open>now\<close> is the clock read
  of line 74.
\<close>

definition backoffWait :: "AccountRateLimitState \<Rightarrow> int \<Rightarrow> int" where
  "backoffWait state now =
     (if consecutiveErrors state > 0 \<and> lastRequestAt state \<noteq> None then
        (let timeSinceLastRequest = now - the (lastRequestAt state);
             waitTime = currentBackoffMs state - timeSinceLastRequest
         in if waitTime > 0 then waitTime else 0)
      else 0)"

text \<open>
  \<open>shouldWait\<close>: \<open>now1\<close> is the clock read of line 64 (made only when a reset
  time is stored), \<open>now2\<close> the one of line 74. The result is the wait in milliseconds
  and the limiter after the call.
\<close>

definition shouldWait :: "RateLimiter \<Rightarrow> string \<Rightarrow> int \<Rightarrow> int \<Rightarrow> int \<times> RateLimiter" where
  "shouldWait rl accountId now1 now2 =
     (let (state, rl1) = getAccountState rl accountId in
      case resetAt state of
        None \<Rightarrow> (backoffWait state now2, rl1)
      | Some r \<Rightarrow>
          (let waitTime = r - now1 in
           if waitTime > 0 then (waitTime, rl1)
           else (let state' = state\<lparr>resetAt := None\<rparr>
                 in (backoffWait state' now2, setAccountState rl1 accountId state'))))"

definition recordSuccess :: "RateLimiter \<Rightarrow> string \<Rightarrow> int \<Rightarrow> RateLimiter" where
  "recordSuccess rl accountId now =
     (let (state, rl1) = getAccountState rl accountId in
      setAccountState rl1 accountId
        (state\<lparr>consecutiveErrors := 0, currentBackoffMs := baseDelayMs rl1,
               resetAt := None, lastRequestAt := Some now\<rparr>))"

text \<open>The optional parameter \<open>resetAt?: Date\<close> is \<open>None\<close> when it is not supplied.\<close>

definition recordRateLimitError :: "RateLimiter \<Rightarrow> string \<Rightarrow> int option \<Rightarrow> int \<Rightarrow> RateLimiter" where
  "recordRateLimitError rl accountId resetAtArg now =
     (let (state, rl1) = getAccountState rl accountId;
          state1 = state\<lparr>consecutiveErrors := consecutiveErrors state + 1,
                         lastRequestAt := Some now\<rparr>
      in case resetAtArg of
           Some r \<Rightarrow> setAccountState rl1 accountId (state1\<lparr>resetAt := Some r\<rparr>)
         | None \<Rightarrow>
             setAccountState rl1 accountId
               (state1\<lparr>currentBackoffMs := min (currentBackoffMs state1 * 2) (maxDelayMs rl1)\<rparr>))"

definition reset :: "RateLimiter \<Rightarrow> string \<Rightarrow> RateLimiter" where
  "reset rl accountId = rl\<lparr>accountStates := (accountStates rl)(accountId := None)\<rparr>"

definition resetAll :: "RateLimiter \<Rightarrow> RateLimiter" where
  "resetAll rl = rl\<lparr>accountStates := Map.empty\<rparr>"

definition getCurrentBackoff :: "RateLimiter \<Rightarrow> string \<Rightarrow> int \<times> RateLimiter" where
  "getCurrentBackoff rl accountId =
     (let (state, rl1) = getAccountState rl accountId in (currentBackoffMs state, rl1))"

definition getConsecutiveErrors :: "RateLimiter \<Rightarrow> string \<Rightarrow> nat \<times> RateLimiter" where
  "getConsecutiveErrors rl accountId =
     (let (state, rl1) = getAccountState rl accountId in (consecutiveErrors state, rl1))"

text \<open>
  What a read of an account observes: its stored state, or the default state of an account
  the table does not hold yet (the state \<open>getAccountState\<close> returns).
\<close>

definition currentState :: "RateLimiter \<Rightarrow> string \<Rightarrow> AccountRateLimitState" where
  "currentState rl accountId = fst (getAccountState rl accountId)"

text \<open>
  Consecutive \<open>recordRateLimitError(accountId)\<close> calls without a reset time, one per
  clock reading of the list (the loop of the test "should cap backoff at max delay").
\<close>

fun recordRateLimitErrors :: "RateLimiter \<Rightarrow> string \<Rightarrow> int list \<Rightarrow> RateLimiter" where
  "recordRateLimitErrors rl accountId [] = rl"
| "recordRateLimitErrors rl accountId (now # nows) =
     recordRateLimitErrors (recordRateLimitError rl accountId None now) accountId nows"

text \<open>
  The public interface of the limiter as a datatype of calls, each with its arguments and
  the clock readings it consumes; \<open>calls\<close> runs a sequence of them from left to right
  and keeps the limiter, dropping the returned values.
\<close>

datatype LimiterCall =
    ShouldWait string int int
  | RecordSuccess string int
  | RecordRateLimitError string "int option" int
  | Reset string
  | ResetAll
  | GetCurrentBackoff string
  | GetConsecutiveErrors string

fun call :: "RateLimiter \<Rightarrow> LimiterCall \<Rightarrow> RateLimiter" where
  "call rl (ShouldWait a now1 now2) = snd (shouldWait rl a now1 now2)"
| "call rl (RecordSuccess a now) = recordSuccess rl a now"
| "call rl (RecordRateLimitError a r now) = recordRateLimitError rl a r now"
| "call rl (Reset a) = reset rl a"
| "call rl ResetAll = resetAll rl"
| "call rl (GetCurrentBackoff a) = snd (getCurrentBackoff rl a)"
| "call rl (GetConsecutiveErrors a) = snd (getConsecutiveErrors rl a)"

definition calls :: "RateLimiter \<Rightarrow> LimiterCall list \<Rightarrow> RateLimiter" where
  "calls rl cs = foldl call rl cs"

text \<open>The invariant of one account state, and of a whole table.\<close>

definition stateInv :: "RateLimiter \<Rightarrow> AccountRateLimitState \<Rightarrow> bool" where
  "stateInv rl s \<longleftrightarrow>
     baseDelayMs rl \<le> currentBackoffMs s \<and> currentBackoffMs s \<le> maxDelayMs rl \<and>
     (consecutiveErrors s = 0 \<longrightarrow> currentBackoffMs s = baseDelayMs rl)"

definition limiterInv :: "RateLimiter \<Rightarrow> bool" where
  "limiterInv rl \<longleftrightarrow> (\<forall>a s. accountStates rl a = Some s \<longrightarrow> stateInv rl s)"

subsection \<open>The static header parser\<close>

text \<open>
  A \<open>Headers\<close> object is the list of its (lower-case name, value) pairs, \<open>get\<close>
  a lookup by name that answers \<open>None\<close> for \<open>null\<close>.

  \<open>parseInt(s, 10)\<close> is the ECMAScript builtin: leading white space is skipped, one
  sign is read, the longest prefix of decimal digits is the value, and no digit at all is
  \<open>NaN\<close> (here \<open>None\<close>). Strings are byte strings, so the white space characters are
  those below 256.

  The value of \<open>parseInt10\<close> is the integer the digits denote. The Number that
  \<open>parseInt\<close> returns is the double nearest to it, which is that integer itself up to
  \<open>2^53\<close> in magnitude; a larger one is rounded to a double that is again at least
  \<open>2^53\<close> in magnitude.

  A \<open>Date\<close> object holds a time value, an integer of milliseconds of magnitude at most
  8,640,000,000,000,000, or is an Invalid Date, whose \<open>getTime()\<close> is \<open>NaN\<close>.
  \<open>new Date(ms)\<close> is an Invalid Date when \<open>ms\<close> is outside that range. With a
  clock reading inside the range, as every \<open>Date.now()\<close> is, the sums and products of
  the parser are exact in doubles whenever their result is inside the range, and a result
  outside it stays outside after rounding (the range ends below \<open>2^53\<close>, products by
  1000 are multiples of 8), so the integer arithmetic below followed by \<open>new_Date\<close>
  gives the date the code gives.

  \<open>Date.parse\<close> on a string is taken as a parameter \<open>parseDate\<close> of the parser:
  which date strings a JavaScript engine accepts is implementation-defined. It answers the
  time value, or \<open>None\<close> for \<open>NaN\<close>; \<open>new Date(string)\<close> clips it as
  \<open>new Date(ms)\<close> does.
\<close>

type_synonym Headers = "(string \<times> string) list"

definition headers_get :: "Headers \<Rightarrow> string \<Rightarrow> string option" where
  "headers_get headers name = map_of headers name"

definition isStrWhiteSpaceChar :: "char \<Rightarrow> bool" where
  "isStrWhiteSpaceChar c \<longleftrightarrow>
     c \<in> set [CHR 0x09, CHR 0x0A, CHR 0x0B, CHR 0x0C, CHR 0x0D, CHR 0x20, CHR 0xA0]"

definition isDecimalDigit :: "char \<Rightarrow> bool" where
  "isDecimalDigit c \<longleftrightarrow> c \<in> set ''0123456789''"

definition digitValue :: "char \<Rightarrow> int" where
  "digitValue c = int (of_char c) - 48"

definition digitsValue :: "string \<Rightarrow> int" where
  "digitsValue ds = foldl (\<lambda>acc c. acc * 10 + digitValue c) 0 ds"

definition parseInt10 :: "string \<Rightarrow> int option" where
  "parseInt10 inputString =
     (let S = dropWhile isStrWhiteSpaceChar inputString;
          sign = (if S \<noteq> [] \<and> hd S = CHR ''-'' then - 1 else 1);
          S' = (if S \<noteq> [] \<and> (hd S = CHR ''+'' \<or> hd S = CHR ''-'') then tl S else S);
          Z = takeWhile isDecimalDigit S'
      in if Z = [] then None else Some (sign * digitsValue Z))"

datatype JsDate = TimeValue int | InvalidDate

definition isTimeValue :: "int \<Rightarrow> bool" where
  "isTimeValue ms \<longleftrightarrow> - 8640000000000000 \<le> ms \<and> ms \<le> 8640000000000000"

definition new_Date :: "int \<Rightarrow> JsDate" where
  "new_Date ms = (if isTimeValue ms then TimeValue ms else InvalidDate)"

text \<open>
  \<open>parseRateLimitHeaders\<close> (source lines 148-175); \<open>now\<close> is the clock read of
  line 154. The first \<open>let\<close> is the Retry-After block, which either returns a date or
  falls through to the X-RateLimit-Reset block. The integer branches return the date
  \<open>new Date(...)\<close> builds without testing it, so they can return an Invalid Date; the
  date-string branch returns its date only when its time value is not \<open>NaN\<close>.
\<close>

definition parseRateLimitHeaders :: "(string \<Rightarrow> int option) \<Rightarrow> int \<Rightarrow> Headers \<Rightarrow> JsDate option" where
  "parseRateLimitHeaders parseDate now headers =
     (let fromRetryAfter =
            (case headers_get headers ''retry-after'' of
               None \<Rightarrow> None
             | Some retryAfter \<Rightarrow>
                 (case parseInt10 retryAfter of
                    Some seconds \<Rightarrow> Some (new_Date (now + seconds * 1000))
                  | None \<Rightarrow>
                      (case parseDate retryAfter of
                         None \<Rightarrow> None
                       | Some tv \<Rightarrow> if isTimeValue tv then Some (TimeValue tv) else None)))
      in case fromRetryAfter of
           Some date \<Rightarrow> Some date
         | None \<Rightarrow>
             (case headers_get headers ''x-ratelimit-reset'' of
                None \<Rightarrow> None
              | Some rateLimitReset \<Rightarrow>
                  (case parseInt10 rateLimitReset of
                     Some timestamp \<Rightarrow>
                       Some (new_Date
                               (if timestamp > 10000000000 then timestamp else timestamp * 1000))
                   | None \<Rightarrow> None)))"

text \<open>A date parser that accepts no string, for inputs whose Retry-After header is absent.\<close>

definition noDate :: "string \<Rightarrow> int option" where
  "noDate s = None"

section \<open>Error taxonomy: the classes of errors/\<close>

text \<open>
  The class hierarchy under \<open>UnipileError\<close> is one record: \<open>errorClass\<close> is the
  class an \<open>instanceof\<close> test sees, the fields after \<open>isRetryable\<close> are those the
  subclasses add (\<open>resetAt\<close> and \<open>accountId\<close> of \<open>RateLimitError\<close>, the resource
  of \<open>NotFoundError\<close>, the details of \<open>ValidationError\<close>). Each constructor below
  fixes category and retryability as its \<open>super(...)\<close> call does. A plain
  \<open>Error\<close> is its name and message; a parsed JSON body is a \<open>json\<close> value, an object
  being the list of its properties.
\<close>

datatype ErrorCategory = TIMEOUT | CONNECTION | RATE_LIMIT | AUTH | VALIDATION | NOT_FOUND | UNKNOWN

datatype json =
    JNull
  | JBoolean bool
  | JNumber int
  | JString string
  | JArray "json list"
  | JObject "(string \<times> json) list"

datatype HttpMethod = GET | POST | PUT | PATCH | DELETE

record JsError =
  errorName :: string
  errorMessage :: string

record ErrorContext =
  statusCode :: "int option"
  url :: "string option"
  ctxMethod :: "HttpMethod option"
  responseBody :: "json option"
  ctxAccountId :: "string option"
  retryAttempt :: "int option"
  rateLimitResetAt :: "JsDate option"
  cause :: "JsError option"

definition emptyContext :: ErrorContext where
  "emptyContext =
     \<lparr>statusCode = None, url = None, ctxMethod = None, responseBody = None,
      ctxAccountId = None, retryAttempt = None, rateLimitResetAt = None, cause = None\<rparr>"

datatype ErrorClass =
    UnipileErrorClass
  | TimeoutErrorClass
  | ConnectionErrorClass
  | RateLimitErrorClass
  | AuthErrorClass
  | NotFoundErrorClass
  | ValidationErrorClass

record ValidationErrorDetail =
  detailField :: string
  detailMessage :: string
  detailValue :: "json option"

record UnipileError =
  errorClass :: ErrorClass
  message :: string
  category :: ErrorCategory
  errContext :: ErrorContext
  isRetryable :: bool
  errResetAt :: "JsDate option"
  errAccountId :: "string option"
  resourceType :: "string option"
  resourceId :: "string option"
  errors :: "ValidationErrorDetail list"

definition new_UnipileError :: "string \<Rightarrow> ErrorCategory \<Rightarrow> ErrorContext \<Rightarrow> bool \<Rightarrow> UnipileError" where
  "new_UnipileError msg cat ctx retryable =
     \<lparr>errorClass = UnipileErrorClass, message = msg, category = cat, errContext = ctx,
      isRetryable = retryable, errResetAt = None, errAccountId = None,
      resourceType = None, resourceId = None, errors = []\<rparr>"

definition new_TimeoutError :: "string \<Rightarrow> ErrorContext \<Rightarrow> UnipileError" where
  "new_TimeoutError msg ctx = (new_UnipileError msg TIMEOUT ctx True)\<lparr>errorClass := TimeoutErrorClass\<rparr>"

definition new_ConnectionError :: "string \<Rightarrow> ErrorContext \<Rightarrow> UnipileError" where
  "new_ConnectionError msg ctx =
     (new_UnipileError msg CONNECTION ctx True)\<lparr>errorClass := ConnectionErrorClass\<rparr>"

definition new_RateLimitError :: "string \<Rightarrow> ErrorContext \<Rightarrow> UnipileError" where
  "new_RateLimitError msg ctx =
     (new_UnipileError msg RATE_LIMIT ctx True)
       \<lparr>errorClass := RateLimitErrorClass, errResetAt := rateLimitResetAt ctx,
        errAccountId := ctxAccountId ctx\<rparr>"

definition new_AuthError :: "string \<Rightarrow> ErrorContext \<Rightarrow> UnipileError" where
  "new_AuthError msg ctx = (new_UnipileError msg AUTH ctx False)\<lparr>errorClass := AuthErrorClass\<rparr>"

definition new_NotFoundError ::
  "string \<Rightarrow> string option \<Rightarrow> string option \<Rightarrow> ErrorContext \<Rightarrow> UnipileError" where
  "new_NotFoundError msg rtype rid ctx =
     (new_UnipileError msg NOT_FOUND ctx False)
       \<lparr>errorClass := NotFoundErrorClass, resourceType := rtype, resourceId := rid\<rparr>"

definition new_ValidationError ::
  "string \<Rightarrow> ValidationErrorDetail list \<Rightarrow> ErrorContext \<Rightarrow> UnipileError" where
  "new_ValidationError msg errs ctx =
     (new_UnipileError msg VALIDATION ctx False)\<lparr>errorClass := ValidationErrorClass, errors := errs\<rparr>"

text \<open>
  \<open>getRetryAfterMs\<close> returns a Number: \<open>None\<close> is the \<open>NaN\<close> that
  \<open>Math.max(0, NaN)\<close> gives for an Invalid Date.
\<close>

definition getRetryAfterMs :: "UnipileError \<Rightarrow> int \<Rightarrow> int option" where
  "getRetryAfterMs e now =
     (case errResetAt e of
        None \<Rightarrow> Some 0
      | Some (TimeValue r) \<Rightarrow> Some (max 0 (r - now))
      | Some InvalidDate \<Rightarrow> None)"

text \<open>
  What a \<open>catch\<close> clause can receive: an error of the taxonomy, any other
  \<open>Error\<close>, or a value that is no \<open>Error\<close> at all (given by its \<open>String(...)\<close>).
\<close>

datatype Thrown =
    ThrownUnipile UnipileError
  | ThrownError JsError
  | ThrownValue string

section \<open>HTTP client: class HttpClient\<close>

text \<open>
  A \<open>Response\<close> of \<open>fetch\<close> carries, beside status, URL and headers, what its
  \<open>json()\<close> and \<open>text()\<close> promises settle to: a value, or the thrown value of a
  rejection. One call of \<open>fetch\<close> resolves to a response or rejects.
\<close>

record Response =
  status :: int
  responseUrl :: string
  responseHeaders :: Headers
  jsonResult :: "Thrown + json"
  textResult :: "Thrown + string"

datatype FetchOutcome = Resolved Response | Rejected Thrown

datatype ParamValue = PString string | PNumber int | PBoolean bool

record RequestOptions =
  optMethod :: HttpMethod
  path :: string
  params :: "(string \<times> ParamValue option) list option"
  body :: "json option"
  optHeaders :: "(string \<times> string) list option"
  optAccountId :: "string option"
  optTimeout :: "int option"

record FetchOptions =
  fetchMethod :: HttpMethod
  fetchHeaders :: "(string \<times> string) list"
  fetchBody :: "json option"

datatype ResponseData = DataUndefined | DataJson json | DataText string

record HttpResponse =
  data :: ResponseData
  httpStatus :: int
  httpHeaders :: Headers

record UnipileConfig =
  dsn :: string
  apiKey :: string
  useHttp :: "bool option"
  cfgTimeout :: "int option"
  cfgEnableRetry :: "bool option"
  retryBaseDelay :: "int option"
  retryMaxDelay :: "int option"
  cfgMaxRetries :: "int option"

record HttpClient =
  baseUrl :: string
  clientApiKey :: string
  timeout :: int
  enableRetry :: bool
  maxRetries :: int
  rateLimiter :: RateLimiter

definition orDefault :: "'a option \<Rightarrow> 'a \<Rightarrow> 'a" where
  "orDefault v d = (case v of Some x \<Rightarrow> x | None \<Rightarrow> d)"

definition new_HttpClient :: "UnipileConfig \<Rightarrow> HttpClient" where
  "new_HttpClient config =
     (let protocol = (if useHttp config = Some True then ''http'' else ''https'')
      in \<lparr>baseUrl = protocol @ ''://'' @ dsn config,
          clientApiKey = apiKey config,
          timeout = orDefault (cfgTimeout config) 30000,
          enableRetry = orDefault (cfgEnableRetry config) True,
          maxRetries = orDefault (cfgMaxRetries config) 5,
          rateLimiter = new_RateLimiter (orDefault (retryBaseDelay config) 300000)
                          (orDefault (retryMaxDelay config) 7200000)\<rparr>)"

text \<open>
  The environment of a run, fixed from outside the client: the two builtins the code
  calls that are not modelled here (\<open>new Date(string)\<close>; and \<open>new URL(path, base)\<close>
  followed by the \<open>searchParams.set\<close> calls of the given list and \<open>toString()\<close>,
  which throws on an invalid URL), the clock, and the transport. \<open>clock env k\<close> is what
  the \<open>k\<close>-th potential read of \<open>Date.now()\<close> returns, and \<open>fetch env k\<close> what the
  \<open>k\<close>-th call of \<open>fetch\<close> settles to, given its URL and options. Both are arbitrary
  functions, so a statement about every environment covers every clock and every server.

  The \<open>World\<close> is what a call changes: the client whose limiter it updates, how often
  the transport has been invoked, how many clock readings have been consumed, and the
  durations slept. The model follows one call from start to end; calls interleaved at an
  \<open>await\<close> are not modelled.
\<close>

record Env =
  dateParse :: "string \<Rightarrow> int option"
  newURL :: "string \<Rightarrow> string \<Rightarrow> (string \<times> string) list \<Rightarrow> JsError + string"
  clock :: "nat \<Rightarrow> int"
  fetch :: "nat \<Rightarrow> string \<Rightarrow> FetchOptions \<Rightarrow> FetchOutcome"

record World =
  client :: HttpClient
  fetchCalls :: nat
  clockReads :: nat
  sleeps :: "int list"

text \<open>
  The decimal rendering of an integer, as a template literal or \<open>String(...)\<close> prints a
  number below \<open>10^21\<close> in magnitude (from there on JavaScript prints an exponent, which
  is not modelled).
\<close>

fun natToString :: "nat \<Rightarrow> string" where
  "natToString n =
     (if n < 10 then [''0123456789'' ! n]
      else natToString (n div 10) @ [''0123456789'' ! (n mod 10)])"

definition numberToString :: "int \<Rightarrow> string" where
  "numberToString n = (if n < 0 then CHR ''-'' # natToString (nat (- n)) else natToString (nat n))"

text \<open>
  Every site of \<open>Date.now()\<close> consumes one reading, also where the source reaches the
  site on some paths only (the reading is then unused).
\<close>

definition readClock :: "Env \<Rightarrow> World \<Rightarrow> int \<times> World" where
  "readClock env w = (clock env (clockReads w), w\<lparr>clockReads := Suc (clockReads w)\<rparr>)"

definition sleep :: "int \<Rightarrow> World \<Rightarrow> World" where
  "sleep ms w = w\<lparr>sleeps := sleeps w @ [ms]\<rparr>"

definition setRateLimiter :: "RateLimiter \<Rightarrow> World \<Rightarrow> World" where
  "setRateLimiter rl w = w\<lparr>client := (client w)\<lparr>rateLimiter := rl\<rparr>\<rparr>"

definition str_includes :: "string \<Rightarrow> string \<Rightarrow> bool" where
  "str_includes s searchString \<longleftrightarrow> sublist searchString s"

definition paramToString :: "ParamValue \<Rightarrow> string" where
  "paramToString v =
     (case v of
        PString s \<Rightarrow> s
      | PNumber n \<Rightarrow> numberToString n
      | PBoolean b \<Rightarrow> (if b then ''true'' else ''false''))"

text \<open>
  \<open>buildUrl\<close>: parameters whose value is \<open>undefined\<close> (\<open>None\<close>) are skipped, the
  others are set in order as strings.
\<close>

definition buildUrl ::
  "Env \<Rightarrow> string \<Rightarrow> string \<Rightarrow> (string \<times> ParamValue option) list option \<Rightarrow> JsError + string" where
  "buildUrl env base p ps =
     newURL env p base
       (case ps of
          None \<Rightarrow> []
        | Some entries \<Rightarrow>
            concat (map (\<lambda>(key, v). case v of None \<Rightarrow> [] | Some x \<Rightarrow> [(key, paramToString x)])
                     entries))"

definition safeParseJson :: "Response \<Rightarrow> json" where
  "safeParseJson response = (case jsonResult response of Inr j \<Rightarrow> j | Inl thrown \<Rightarrow> JNull)"

definition stringProperty :: "(string \<times> json) list \<Rightarrow> string \<Rightarrow> string option" where
  "stringProperty obj key = (case map_of obj key of Some (JString s) \<Rightarrow> Some s | _ \<Rightarrow> None)"

definition extractErrorMessage :: "json \<Rightarrow> string \<Rightarrow> string" where
  "extractErrorMessage b fallback =
     (case b of
        JObject obj \<Rightarrow>
          (case stringProperty obj ''message'' of
             Some m \<Rightarrow> m
           | None \<Rightarrow>
               (case stringProperty obj ''error'' of
                  Some m \<Rightarrow> m
                | None \<Rightarrow>
                    (case stringProperty obj ''error_description'' of
                       Some m \<Rightarrow> m
                     | None \<Rightarrow> fallback)))
      | _ \<Rightarrow> fallback)"

text \<open>
  \<open>handleResponse\<close> (source lines 393-477), the status tests in the source's order;
  \<open>now\<close> is the clock reading of the header parser.
\<close>

definition handleResponse ::
  "Env \<Rightarrow> int \<Rightarrow> Response \<Rightarrow> RequestOptions \<Rightarrow> int \<Rightarrow> Thrown + HttpResponse" where
  "handleResponse env now response options attempt =
     (let ctx = emptyContext\<lparr>statusCode := Some (status response),
                  url := Some (responseUrl response),
                  ctxMethod := Some (optMethod options),
                  ctxAccountId := optAccountId options,
                  retryAttempt := Some attempt\<rparr>
      in
      if status response = 429 then
        (let resetDate = parseRateLimitHeaders (dateParse env) now (responseHeaders response)
         in Inl (ThrownUnipile
              (new_RateLimitError ''Rate limit exceeded'' (ctx\<lparr>rateLimitResetAt := resetDate\<rparr>))))
      else if status response = 401 \<or> status response = 403 then
        (let b = safeParseJson response
         in Inl (ThrownUnipile
              (new_AuthError (extractErrorMessage b ''Authentication failed'')
                 (ctx\<lparr>responseBody := Some b\<rparr>))))
      else if status response = 404 then
        (let b = safeParseJson response
         in Inl (ThrownUnipile
              (new_NotFoundError (extractErrorMessage b ''Resource not found'') None None
                 (ctx\<lparr>responseBody := Some b\<rparr>))))
      else if status response = 400 \<or> status response = 422 then
        (let b = safeParseJson response
         in Inl (ThrownUnipile
              (new_ValidationError (extractErrorMessage b ''Validation failed'') []
                 (ctx\<lparr>responseBody := Some b\<rparr>))))
      else if status response \<ge> 500 then
        (let b = safeParseJson response
         in Inl (ThrownUnipile
              (new_UnipileError (extractErrorMessage b ''Server error'') UNKNOWN
                 (ctx\<lparr>responseBody := Some b\<rparr>) True)))
      else if status response \<ge> 400 then
        (let b = safeParseJson response
         in Inl (ThrownUnipile
              (new_UnipileError (extractErrorMessage b ''Request failed'') UNKNOWN
                 (ctx\<lparr>responseBody := Some b\<rparr>) False)))
      else
        (let contentType = headers_get (responseHeaders response) ''content-type''
         in if status response = 204 then
              Inr \<lparr>data = DataUndefined, httpStatus = status response,
                   httpHeaders = responseHeaders response\<rparr>
            else if (case contentType of Some ct \<Rightarrow> str_includes ct ''application/json'' | None \<Rightarrow> False) then
              (case jsonResult response of
                 Inl thrown \<Rightarrow> Inl thrown
               | Inr j \<Rightarrow>
                   Inr \<lparr>data = DataJson j, httpStatus = status response,
                        httpHeaders = responseHeaders response\<rparr>)
            else
              (case textResult response of
                 Inl thrown \<Rightarrow> Inl thrown
               | Inr s \<Rightarrow>
                   Inr \<lparr>data = DataText s, httpStatus = status response,
                        httpHeaders = responseHeaders response\<rparr>)))"

text \<open>
  The \<open>catch\<close> block of \<open>executeRequest\<close> (source lines 347-384): what it throws for
  the value it caught.
\<close>

definition wrapThrown :: "string \<Rightarrow> RequestOptions \<Rightarrow> int \<Rightarrow> int \<Rightarrow> Thrown \<Rightarrow> Thrown" where
  "wrapThrown u options tmo attempt error =
     (let ctx = emptyContext\<lparr>url := Some u, ctxMethod := Some (optMethod options),
                  retryAttempt := Some attempt\<rparr>
      in case error of
           ThrownUnipile e \<Rightarrow> error
         | ThrownError err \<Rightarrow>
             if errorName err = ''AbortError'' then
               ThrownUnipile
                 (new_TimeoutError (''Request timed out after '' @ numberToString tmo @ ''ms'') ctx)
             else if str_includes (errorMessage err) ''ECONNREFUSED'' \<or>
                     str_includes (errorMessage err) ''ENOTFOUND'' \<or>
                     str_includes (errorMessage err) ''network'' then
               ThrownUnipile
                 (new_ConnectionError (''Connection failed: '' @ errorMessage err)
                    (ctx\<lparr>cause := Some err\<rparr>))
             else
               ThrownUnipile
                 (new_UnipileError (''Request failed: '' @ errorMessage err) UNKNOWN ctx True)
         | ThrownValue s \<Rightarrow>
             ThrownUnipile (new_UnipileError (''Request failed: '' @ s) UNKNOWN ctx True))"

text \<open>
  \<open>executeRequest\<close>: the URL is built before the \<open>try\<close>, so a throw of the URL
  constructor leaves the function as it is and no transport call is made; the \<open>try\<close>
  covers the transport call and \<open>handleResponse\<close>.
\<close>

definition buildFetchOptions :: "HttpClient \<Rightarrow> RequestOptions \<Rightarrow> FetchOptions" where
  "buildFetchOptions c options =
     \<lparr>fetchMethod = optMethod options,
      fetchHeaders = orDefault (optHeaders options) [] @
                       [(''X-API-KEY'', clientApiKey c),
                        (''Content-Type'', ''application/json''),
                        (''Accept'', ''application/json'')],
      fetchBody = body options\<rparr>"

definition executeRequest ::
  "Env \<Rightarrow> RequestOptions \<Rightarrow> int \<Rightarrow> World \<Rightarrow> (Thrown + HttpResponse) \<times> World" where
  "executeRequest env options attempt w =
     (case buildUrl env (baseUrl (client w)) (path options) (params options) of
        Inl err \<Rightarrow> (Inl (ThrownError err), w)
      | Inr u \<Rightarrow>
          (let tmo = orDefault (optTimeout options) (timeout (client w));
               outcome = fetch env (fetchCalls w) u (buildFetchOptions (client w) options);
               w1 = w\<lparr>fetchCalls := Suc (fetchCalls w)\<rparr>;
               (now, w2) = readClock env w1
           in case (case outcome of
                      Rejected thrown \<Rightarrow> Inl thrown
                    | Resolved response \<Rightarrow> handleResponse env now response options attempt) of
                Inr r \<Rightarrow> (Inr r, w2)
              | Inl error \<Rightarrow> (Inl (wrapThrown u options tmo attempt error), w2)))"

text \<open>
  \<open>recordRateLimitError\<close> at the reset date of a \<open>RateLimitError\<close>, which can be an
  Invalid Date. The table of the limiter keeps time values, and an Invalid Date has none;
  storing it is modelled as storing \<open>null\<close>. The only reader of \<open>resetAt\<close> is
  \<open>shouldWait\<close>: for an Invalid Date its \<open>waitTime\<close> is \<open>NaN\<close>, the test
  \<open>waitTime > 0\<close> is false, the field is set to \<open>null\<close> and the backoff check
  follows, which is what \<open>shouldWait\<close> does for \<open>null\<close>. As for every supplied
  date, the counter grows, \<open>lastRequestAt\<close> is stamped and the backoff is not doubled.
\<close>

definition recordRateLimitError_date ::
  "RateLimiter \<Rightarrow> string \<Rightarrow> JsDate option \<Rightarrow> int \<Rightarrow> RateLimiter" where
  "recordRateLimitError_date rl accountId resetDate now =
     (case resetDate of
        None \<Rightarrow> recordRateLimitError rl accountId None now
      | Some (TimeValue r) \<Rightarrow> recordRateLimitError rl accountId (Some r) now
      | Some InvalidDate \<Rightarrow>
          (let (state, rl1) = getAccountState rl accountId
           in setAccountState rl1 accountId
                (state\<lparr>consecutiveErrors := consecutiveErrors state + 1,
                       lastRequestAt := Some now, resetAt := None\<rparr>)))"

text \<open>
  The wait before the next attempt after a retryable error (source lines 291-303).
\<close>

definition backoffBeforeRetry :: "Env \<Rightarrow> string \<Rightarrow> UnipileError \<Rightarrow> int \<Rightarrow> World \<Rightarrow> World" where
  "backoffBeforeRetry env accountId e attempt w =
     (if errorClass e = RateLimitErrorClass then
        (let (now1, w1) = readClock env w;
             w2 = setRateLimiter
                    (recordRateLimitError_date (rateLimiter (client w1)) accountId (errResetAt e) now1)
                    w1;
             (now2, w3) = readClock env w2;
             retryAfter = getRetryAfterMs e now2
         in if (case retryAfter of Some ms \<Rightarrow> ms > 0 | None \<Rightarrow> False) then sleep (the retryAfter) w3
            else (let (backoff, rl) = getCurrentBackoff (rateLimiter (client w3)) accountId
                  in sleep backoff (setRateLimiter rl w3)))
      else
        (let delay = min (1000 * 2 ^ nat (attempt - 1)) 30000
         in sleep delay w))"

definition asError :: "Thrown \<Rightarrow> Thrown" where
  "asError error =
     (case error of
        ThrownValue s \<Rightarrow> ThrownError \<lparr>errorName = ''Error'', errorMessage = s\<rparr>
      | _ \<Rightarrow> error)"

text \<open>
  The attempt loop of \<open>request\<close> (source lines 275-310), from attempt number
  \<open>attempt\<close> on; the \<open>else\<close> branch is the statement after the loop.
\<close>

function attemptLoop ::
  "Env \<Rightarrow> RequestOptions \<Rightarrow> string \<Rightarrow> int \<Rightarrow> int \<Rightarrow> Thrown option \<Rightarrow> World
     \<Rightarrow> (Thrown + HttpResponse) \<times> World" where
  "attemptLoop env options accountId maxAttempts attempt lastError w =
     (if attempt \<le> maxAttempts then
        (case executeRequest env options attempt w of
           (Inr response, w1) \<Rightarrow>
             (let (now, w2) = readClock env w1
              in (Inr response,
                  setRateLimiter (recordSuccess (rateLimiter (client w2)) accountId now) w2))
         | (Inl error, w1) \<Rightarrow>
             (case error of
                ThrownUnipile e \<Rightarrow>
                  if \<not> isRetryable e \<or> attempt \<ge> maxAttempts then (Inl error, w1)
                  else attemptLoop env options accountId maxAttempts (attempt + 1)
                         (Some (asError error)) (backoffBeforeRetry env accountId e attempt w1)
              | _ \<Rightarrow> (Inl error, w1)))
      else
        (Inl (case lastError of
                Some e \<Rightarrow> e
              | None \<Rightarrow>
                  ThrownUnipile
                    (new_UnipileError ''Request failed after retries'' UNKNOWN emptyContext False)),
         w))"
  by pat_completeness auto
termination
  by (relation "measure (\<lambda>(env, options, accountId, maxAttempts, attempt, lastError, w).
        nat (maxAttempts + 1 - attempt))") auto

text \<open>
  The check before the loop (source lines 262-273): the thrown error when the account must
  wait and retry is disabled, otherwise \<open>None\<close> after the sleep, if any.
\<close>

definition checkRateLimit :: "Env \<Rightarrow> string \<Rightarrow> World \<Rightarrow> Thrown option \<times> World" where
  "checkRateLimit env accountId w =
     (let (now1, wa) = readClock env w;
          (now2, wb) = readClock env wa;
          (waitTime, rl) = shouldWait (rateLimiter (client wb)) accountId now1 now2;
          w1 = setRateLimiter rl wb
      in if waitTime > 0 then
           (if enableRetry (client w1) then (None, sleep waitTime w1)
            else
              (let (now, w2) = readClock env w1
               in (Some (ThrownUnipile
                     (new_RateLimitError
                        (''Rate limit active, retry after '' @ numberToString waitTime @ ''ms'')
                        (emptyContext\<lparr>ctxAccountId := Some accountId,
                           rateLimitResetAt := Some (new_Date (now + waitTime))\<rparr>))),
                   w2)))
         else (None, w1))"

definition request :: "Env \<Rightarrow> RequestOptions \<Rightarrow> World \<Rightarrow> (Thrown + HttpResponse) \<times> World" where
  "request env options w =
     (let accountId = orDefault (optAccountId options) ''global''
      in case checkRateLimit env accountId w of
           (Some thrown, w1) \<Rightarrow> (Inl thrown, w1)
         | (None, w1) \<Rightarrow>
             (let maxAttempts = (if enableRetry (client w1) then maxRetries (client w1) else 1)
              in attemptLoop env options accountId maxAttempts 1 None w1))"

section \<open>UnipileClient.fromEnv\<close>

text \<open>
  \<open>process.env\<close> is a map from names to strings, \<open>undefined\<close> being \<open>None\<close>.
  The service objects of a client only hold its HTTP client and are left out. A thrown
  \<open>Error\<close> is the \<open>Inl\<close> result; the constructor runs in the \<open>Inr\<close> branch only.
\<close>

record UnipileClient =
  httpClient :: HttpClient

definition new_UnipileClient :: "UnipileConfig \<Rightarrow> UnipileClient" where
  "new_UnipileClient config = \<lparr>httpClient = new_HttpClient config\<rparr>"

definition fromEnv :: "(string \<rightharpoonup> string) \<Rightarrow> JsError + UnipileClient" where
  "fromEnv processEnv =
     (let dsnVar = processEnv ''UNIPILE_DSN'';
          apiKeyVar = processEnv ''UNIPILE_API_KEY'';
          useHttpVar = (processEnv ''UNIPILE_USE_HTTP'' = Some ''true'')
      in if dsnVar = None \<or> dsnVar = Some [] then
           Inl \<lparr>errorName = ''Error'',
                errorMessage = ''UNIPILE_DSN environment variable is required''\<rparr>
         else if apiKeyVar = None \<or> apiKeyVar = Some [] then
           Inl \<lparr>errorName = ''Error'',
                errorMessage = ''UNIPILE_API_KEY environment variable is required''\<rparr>
         else
           Inr (new_UnipileClient
                  \<lparr>dsn = the dsnVar, apiKey = the apiKeyVar, useHttp = Some useHttpVar,
                   cfgTimeout = None, cfgEnableRetry = None, retryBaseDelay = None,
                   retryMaxDelay = None, cfgMaxRetries = None\<rparr>))"

section \<open>Sample inputs\<close>

text \<open>
  The fixtures of the test suites: a transport that answers from a list of queued
  outcomes, a client built from a small configuration, the descriptor the \<open>get\<close>
  helper builds, and a mocked JSON response.
\<close>

definition queuedFetch :: "FetchOutcome list \<Rightarrow> nat \<Rightarrow> string \<Rightarrow> FetchOptions \<Rightarrow> FetchOutcome" where
  "queuedFetch outcomes k u fo =
     (if k < length outcomes then outcomes ! k
      else Rejected (ThrownError \<lparr>errorName = ''TypeError'', errorMessage = ''fetch failed''\<rparr>))"

definition testEnv :: "FetchOutcome list \<Rightarrow> Env" where
  "testEnv outcomes =
     \<lparr>dateParse = noDate,
      newURL = (\<lambda>p base query. Inr (base @ p)),
      clock = (\<lambda>k. 1000 + int k),
      fetch = queuedFetch outcomes\<rparr>"

definition testClient :: "bool \<Rightarrow> int \<Rightarrow> HttpClient" where
  "testClient retry retries =
     new_HttpClient
       \<lparr>dsn = ''api.example.com'', apiKey = ''test-api-key'', useHttp = None,
        cfgTimeout = Some 5000, cfgEnableRetry = Some retry, retryBaseDelay = None,
        retryMaxDelay = None, cfgMaxRetries = Some retries\<rparr>"

definition newWorld :: "HttpClient \<Rightarrow> World" where
  "newWorld c = \<lparr>client = c, fetchCalls = 0, clockReads = 0, sleeps = []\<rparr>"

definition getOptions :: "string \<Rightarrow> string option \<Rightarrow> RequestOptions" where
  "getOptions p account =
     \<lparr>optMethod = GET, path = p, params = None, body = None, optHeaders = None,
      optAccountId = account, optTimeout = None\<rparr>"

definition mockResponse :: "int \<Rightarrow> Headers \<Rightarrow> json \<Rightarrow> Response" where
  "mockResponse st hs j =
     \<lparr>status = st, responseUrl = ''https://api.example.com/test'', responseHeaders = hs,
      jsonResult = Inr j, textResult = Inr []\<rparr>"

text \<open>
  How a result of one attempt or of a whole request is read: it fails with an error of the
  taxonomy that has the given category and retryability.
\<close>

definition failsWith :: "Thrown + HttpResponse \<Rightarrow> ErrorCategory \<Rightarrow> bool \<Rightarrow> bool" where
  "failsWith r cat retryable \<longleftrightarrow>
     (\<exists>e. r = Inl (ThrownUnipile e) \<and> category e = cat \<and> isRetryable e = retryable)"

section \<open>Properties of the rate limiter\<close>

lemmas limiter_defs = getAccountState_def setAccountState_def currentState_def Let_def

lemma getAccountState_inv:
  assumes "baseDelayMs rl \<le> maxDelayMs rl" and "limiterInv rl"
  shows "stateInv rl (fst (getAccountState rl a))"
    and "limiterInv (snd (getAccountState rl a))"
    and "baseDelayMs (snd (getAccountState rl a)) = baseDelayMs rl"
    and "maxDelayMs (snd (getAccountState rl a)) = maxDelayMs rl"
  using assms
  by (auto simp add: getAccountState_def limiterInv_def stateInv_def Let_def split: option.splits)

lemma setAccountState_inv:
  assumes "limiterInv rl" and "stateInv rl s"
  shows "limiterInv (setAccountState rl a s)"
  using assms by (auto simp add: setAccountState_def limiterInv_def stateInv_def)

lemma call_delays:
  "baseDelayMs (call rl c) = baseDelayMs rl \<and> maxDelayMs (call rl c) = maxDelayMs rl"
  by (cases c)
     (auto simp add: shouldWait_def recordSuccess_def recordRateLimitError_def reset_def
        resetAll_def getCurrentBackoff_def getConsecutiveErrors_def getAccountState_def
        setAccountState_def Let_def split: option.splits)

text \<open>Each call of the interface keeps the invariant of the table, if the base delay is
  not negative and not above the maximum.\<close>

lemma call_inv:
  assumes b: "0 \<le> baseDelayMs rl" "baseDelayMs rl \<le> maxDelayMs rl" and i: "limiterInv rl"
  shows "limiterInv (call rl c)"
proof -
  note g = getAccountState_inv[OF b(2) i]
  show ?thesis
  proof (cases c)
    case (ShouldWait a n1 n2)
    have "stateInv (snd (getAccountState rl a)) ((fst (getAccountState rl a))\<lparr>resetAt := None\<rparr>)"
      using g(1)[of a] g(3)[of a] g(4)[of a] by (simp add: stateInv_def)
    then show ?thesis using ShouldWait g(2)[of a] setAccountState_inv
      by (auto simp add: shouldWait_def Let_def split: prod.splits option.splits)
  next
    case (RecordSuccess a n)
    have "stateInv (snd (getAccountState rl a))
            ((fst (getAccountState rl a))\<lparr>consecutiveErrors := 0,
               currentBackoffMs := baseDelayMs (snd (getAccountState rl a)), resetAt := None,
               lastRequestAt := Some n\<rparr>)"
      using b g(3)[of a] g(4)[of a] by (simp add: stateInv_def)
    then show ?thesis using RecordSuccess g(2)[of a] setAccountState_inv
      by (auto simp add: recordSuccess_def Let_def split: prod.splits)
  next
    case (RecordRateLimitError a r n)
    let ?s = "fst (getAccountState rl a)" and ?rl1 = "snd (getAccountState rl a)"
    have s: "stateInv ?rl1 ?s"
      using g(1)[of a] g(3)[of a] g(4)[of a] by (simp add: stateInv_def)
    have 1: "stateInv ?rl1 (?s\<lparr>consecutiveErrors := consecutiveErrors ?s + 1,
                 lastRequestAt := Some n, resetAt := Some x\<rparr>)" for x
      using s by (simp add: stateInv_def)
    have 2: "stateInv ?rl1 (?s\<lparr>consecutiveErrors := consecutiveErrors ?s + 1,
                 lastRequestAt := Some n,
                 currentBackoffMs := min (currentBackoffMs ?s * 2) (maxDelayMs ?rl1)\<rparr>)"
      using s b g(3)[of a] g(4)[of a] by (simp add: stateInv_def)
    show ?thesis
      using RecordRateLimitError g(2)[of a] setAccountState_inv[OF g(2)[of a] 1]
        setAccountState_inv[OF g(2)[of a] 2]
      by (auto simp add: recordRateLimitError_def Let_def split: prod.splits option.splits)
  next
    case (Reset a)
    then show ?thesis using i by (auto simp add: reset_def limiterInv_def stateInv_def)
  next
    case ResetAll
    then show ?thesis by (simp add: resetAll_def limiterInv_def)
  next
    case (GetCurrentBackoff a)
    then show ?thesis using g(2)[of a] by (auto simp add: getCurrentBackoff_def split: prod.splits)
  next
    case (GetConsecutiveErrors a)
    then show ?thesis using g(2)[of a] by (auto simp add: getConsecutiveErrors_def split: prod.splits)
  qed
qed

lemma calls_inv:
  assumes "0 \<le> baseDelayMs rl" "baseDelayMs rl \<le> maxDelayMs rl" "limiterInv rl"
  shows "baseDelayMs (calls rl cs) = baseDelayMs rl \<and> maxDelayMs (calls rl cs) = maxDelayMs rl \<and>
    limiterInv (calls rl cs)"
  using assms unfolding calls_def
proof (induction cs arbitrary: rl)
  case Nil
  then show ?case by simp
next
  case (Cons c cs)
  have d: "baseDelayMs (call rl c) = baseDelayMs rl" "maxDelayMs (call rl c) = maxDelayMs rl"
    using call_delays by auto
  have i: "limiterInv (call rl c)"
    using call_inv[OF Cons.prems] .
  show ?case using Cons.IH[of "call rl c"] Cons.prems d i by simp
qed

lemma recordRateLimitErrors_backoff:
  "baseDelayMs rl = 1000 \<Longrightarrow> maxDelayMs rl = 10000 \<Longrightarrow>
   currentBackoffMs (currentState rl acc) = min (1000 * 2 ^ k) 10000 \<Longrightarrow>
   currentBackoffMs (currentState (recordRateLimitErrors rl acc nows) acc) =
     min (1000 * 2 ^ (k + length nows)) 10000"
proof (induction nows arbitrary: rl k)
  case Nil
  then show ?case by simp
next
  case (Cons n nows)
  let ?rl = "recordRateLimitError rl acc None n"
  have 1: "baseDelayMs ?rl = 1000" "maxDelayMs ?rl = 10000"
    using Cons.prems(1,2)
    by (auto simp add: recordRateLimitError_def limiter_defs split: option.splits)
  have 2: "currentBackoffMs (currentState ?rl acc) = min (1000 * 2 ^ (Suc k)) 10000"
    using Cons.prems
    by (auto simp add: recordRateLimitError_def limiter_defs split: option.splits)
  show ?case using Cons.IH[OF 1 2] by simp
qed

text \<open>
  C9: for every account id and every prior state of the limiter, \<open>shouldWait\<close>
  returns 0 right after \<open>recordSuccess\<close> on the same account, whatever the clock
  reads: the success stamps \<open>lastRequestAt\<close> but zeroes the error counter and clears the
  reset time, so neither branch of \<open>shouldWait\<close> can produce a wait.
\<close>

theorem shouldWait_after_recordSuccess:
  "fst (shouldWait (recordSuccess rl acc now) acc now1 now2) = 0"
  by (simp add: shouldWait_def recordSuccess_def backoffWait_def limiter_defs split: option.splits)

text \<open>
  C1: for every account id, \<open>shouldWait\<close> behaves by cases on the state \<open>s\<close> the
  account has (the default state when it is unseen). (1) If a reset time \<open>r\<close> is stored
  and lies after the clock reading, the call returns \<open>r - now1\<close> at once and leaves the
  limiter as it is, whatever the backoff fields hold. (2) If the stored reset time has
  passed, the call clears it: afterwards the account has no reset time. (3) Whenever (1)
  does not apply, the result is the backoff wait: when \<open>consecutiveErrors > 0\<close> and a
  \<open>lastRequestAt\<close> is recorded it is the part of \<open>currentBackoffMs\<close> not yet elapsed
  since \<open>lastRequestAt\<close> (0 when all of it has elapsed), and 0 otherwise, which is when
  the call may proceed.
\<close>

theorem shouldWait_cases:
  "(resetAt (currentState rl acc) = Some r \<and> now1 < r \<longrightarrow>
      shouldWait rl acc now1 now2 = (r - now1, rl))
   \<and> (resetAt (currentState rl acc) = Some r \<and> r \<le> now1 \<longrightarrow>
      accountStates (snd (shouldWait rl acc now1 now2)) acc =
        Some ((currentState rl acc)\<lparr>resetAt := None\<rparr>))
   \<and> (\<not> (\<exists>r'. resetAt (currentState rl acc) = Some r' \<and> now1 < r') \<longrightarrow>
      fst (shouldWait rl acc now1 now2) =
        (if 0 < consecutiveErrors (currentState rl acc) \<and>
            lastRequestAt (currentState rl acc) \<noteq> None
         then max 0 (currentBackoffMs (currentState rl acc) -
                      (now2 - the (lastRequestAt (currentState rl acc))))
         else 0))"
  by (auto simp add: shouldWait_def backoffWait_def limiter_defs split: option.splits)

theorem shouldWait_cases_witness:
  "shouldWait (recordRateLimitError (new_RateLimiter 1000 10000) ''account-1'' (Some 5000) 100)
     ''account-1'' 200 200 =
     (4800, recordRateLimitError (new_RateLimiter 1000 10000) ''account-1'' (Some 5000) 100)
   \<and> map_option resetAt
        (accountStates
          (snd (shouldWait (recordRateLimitError (new_RateLimiter 1000 10000) ''account-1'' (Some 0) 1000)
                  ''account-1'' 1200 1300)) ''account-1'') = Some None
   \<and> fst (shouldWait (recordRateLimitError (new_RateLimiter 1000 10000) ''account-1'' (Some 0) 1000)
            ''account-1'' 1200 1300) = 700"
proof -
  let ?R1 = "recordRateLimitError (new_RateLimiter 1000 10000) ''account-1'' (Some 5000) 100"
  let ?R2 = "recordRateLimitError (new_RateLimiter 1000 10000) ''account-1'' (Some 0) 1000"
  have s1: "currentState ?R1 ''account-1'' =
      \<lparr>consecutiveErrors = 1, resetAt = Some 5000, currentBackoffMs = 1000, lastRequestAt = Some 100\<rparr>"
    by (simp add: recordRateLimitError_def new_RateLimiter_def limiter_defs)
  have s2: "currentState ?R2 ''account-1'' =
      \<lparr>consecutiveErrors = 1, resetAt = Some 0, currentBackoffMs = 1000, lastRequestAt = Some 1000\<rparr>"
    by (simp add: recordRateLimitError_def new_RateLimiter_def limiter_defs)
  have 1: "shouldWait ?R1 ''account-1'' 200 200 = (4800, ?R1)"
    using shouldWait_cases[of ?R1 "''account-1''" 5000 200 200] by (simp add: s1)
  have 2: "map_option resetAt (accountStates (snd (shouldWait ?R2 ''account-1'' 1200 1300)) ''account-1'')
             = Some None
           \<and> fst (shouldWait ?R2 ''account-1'' 1200 1300) = 700"
    using shouldWait_cases[of ?R2 "''account-1''" 0 1200 1300] by (simp add: s2)
  show ?thesis using 1 2 by simp
qed

text \<open>
  C2: for every account and every call of \<open>recordRateLimitError\<close> without a reset time,
  the backoff read by \<open>getCurrentBackoff\<close> becomes the minimum of twice the previous
  backoff and \<open>maxDelay\<close>, and the error counter grows by one. On a limiter built with
  base 1000 and maximum 10000, the backoff after \<open>n\<close> such calls on an account is
  \<open>min (1000 * 2^n) 10000\<close>: 2000, 4000, 8000, 10000, 10000 for \<open>n\<close> from 1 to 5, and
  10000 for every \<open>n\<close> from 4 on. With a reset time supplied, the reset time is stored as
  given, the backoff stays what it was, and the counter still grows by one.
\<close>

theorem recordRateLimitError_backoff:
  "fst (getCurrentBackoff (recordRateLimitError rl acc None now) acc) =
     min (2 * fst (getCurrentBackoff rl acc)) (maxDelayMs rl)
   \<and> fst (getConsecutiveErrors (recordRateLimitError rl acc None now) acc) =
       fst (getConsecutiveErrors rl acc) + 1
   \<and> fst (getCurrentBackoff (recordRateLimitErrors (new_RateLimiter 1000 10000) acc nows) acc) =
       min (1000 * 2 ^ length nows) 10000
   \<and> map (\<lambda>ts. fst (getCurrentBackoff (recordRateLimitErrors (new_RateLimiter 1000 10000) acc ts) acc))
        [[t1], [t1, t2], [t1, t2, t3], [t1, t2, t3, t4], [t1, t2, t3, t4, t5]] =
       [2000, 4000, 8000, 10000, 10000]
   \<and> fst (getCurrentBackoff
            (recordRateLimitErrors (new_RateLimiter 1000 10000) acc (t1 # t2 # t3 # t4 # nows)) acc) =
       10000
   \<and> resetAt (currentState (recordRateLimitError rl acc (Some r) now) acc) = Some r
   \<and> fst (getCurrentBackoff (recordRateLimitError rl acc (Some r) now) acc) =
       fst (getCurrentBackoff rl acc)
   \<and> fst (getConsecutiveErrors (recordRateLimitError rl acc (Some r) now) acc) =
       fst (getConsecutiveErrors rl acc) + 1"
proof -
  let ?L = "new_RateLimiter 1000 10000"
  have g: "fst (getCurrentBackoff x acc) = currentBackoffMs (currentState x acc)" for x
    by (simp add: getCurrentBackoff_def currentState_def split: prod.splits)
  have seq: "fst (getCurrentBackoff (recordRateLimitErrors ?L acc ts) acc) =
             min (1000 * 2 ^ length ts) 10000" for ts
  proof -
    have "baseDelayMs ?L = 1000" "maxDelayMs ?L = 10000"
      "currentBackoffMs (currentState ?L acc) = min (1000 * 2 ^ 0) 10000"
      by (simp_all add: new_RateLimiter_def limiter_defs)
    from recordRateLimitErrors_backoff[OF this, of ts] show ?thesis
      by (simp add: g)
  qed
  have "(1::int) \<le> 2 ^ length nows"
    by (rule one_le_power) simp
  then have "(10000::int) \<le> 16000 * 2 ^ length nows"
    by linarith
  then have big: "min (1000 * 2 ^ length (t1 # t2 # t3 # t4 # nows)) (10000::int) = 10000"
    by (simp add: min_def)
  have c5: "fst (getCurrentBackoff (recordRateLimitErrors ?L acc (t1 # t2 # t3 # t4 # nows)) acc) = 10000"
    using seq[of "t1 # t2 # t3 # t4 # nows"] big by simp
  have c4: "map (\<lambda>ts. fst (getCurrentBackoff (recordRateLimitErrors ?L acc ts) acc))
        [[t1], [t1, t2], [t1, t2, t3], [t1, t2, t3, t4], [t1, t2, t3, t4, t5]] =
       [2000, 4000, 8000, 10000, 10000]"
    by (simp add: seq)
  have rest: "fst (getCurrentBackoff (recordRateLimitError rl acc None now) acc) =
     min (2 * fst (getCurrentBackoff rl acc)) (maxDelayMs rl)
   \<and> fst (getConsecutiveErrors (recordRateLimitError rl acc None now) acc) =
       fst (getConsecutiveErrors rl acc) + 1
   \<and> resetAt (currentState (recordRateLimitError rl acc (Some r) now) acc) = Some r
   \<and> fst (getCurrentBackoff (recordRateLimitError rl acc (Some r) now) acc) =
       fst (getCurrentBackoff rl acc)
   \<and> fst (getConsecutiveErrors (recordRateLimitError rl acc (Some r) now) acc) =
       fst (getConsecutiveErrors rl acc) + 1"
    by (simp add: getCurrentBackoff_def getConsecutiveErrors_def recordRateLimitError_def
        limiter_defs mult.commute split: option.splits)
  show ?thesis
    using rest c4 c5 seq[of nows] by blast
qed

text \<open>
  C7, as amended: on a limiter constructed with \<open>0 \<le> baseDelay \<le> maxDelay\<close>, every
  account state stored after any sequence of \<open>shouldWait\<close>, \<open>recordSuccess\<close>,
  \<open>recordRateLimitError\<close>, \<open>reset\<close>, \<open>resetAll\<close>, \<open>getCurrentBackoff\<close> and
  \<open>getConsecutiveErrors\<close> calls has its \<open>currentBackoffMs\<close> in
  \<open>[baseDelay, maxDelay]\<close>, and \<open>consecutiveErrors = 0\<close> implies
  \<open>currentBackoffMs = baseDelay\<close>. The premise \<open>0 \<le> baseDelay\<close> is needed: with a
  negative base delay doubling moves the backoff below the base.
\<close>

theorem backoff_invariant:
  assumes "0 \<le> baseDelay" and "baseDelay \<le> maxDelay"
    and "accountStates (calls (new_RateLimiter baseDelay maxDelay) cs) acc = Some s"
  shows "baseDelay \<le> currentBackoffMs s \<and> currentBackoffMs s \<le> maxDelay \<and>
         (consecutiveErrors s = 0 \<longrightarrow> currentBackoffMs s = baseDelay)"
proof -
  let ?rl = "new_RateLimiter baseDelay maxDelay"
  have n: "baseDelayMs ?rl = baseDelay" "maxDelayMs ?rl = maxDelay" "limiterInv ?rl"
    by (simp_all add: new_RateLimiter_def limiterInv_def)
  have "baseDelayMs (calls ?rl cs) = baseDelay \<and> maxDelayMs (calls ?rl cs) = maxDelay \<and>
    limiterInv (calls ?rl cs)"
    using calls_inv[of ?rl cs] assms(1,2) n by simp
  then have "stateInv (calls ?rl cs) s" and "baseDelayMs (calls ?rl cs) = baseDelay"
    and "maxDelayMs (calls ?rl cs) = maxDelay"
    using assms(3) by (auto simp add: limiterInv_def)
  then show ?thesis by (simp add: stateInv_def)
qed

theorem backoff_invariant_witness:
  "(\<exists>s. accountStates
          (calls (new_RateLimiter 1000 10000)
            [RecordRateLimitError ''a'' None 5, ShouldWait ''a'' 6 7,
             RecordRateLimitError ''a'' None 8, GetCurrentBackoff ''b'']) ''a'' = Some s \<and>
        consecutiveErrors s = 2 \<and> 1000 \<le> currentBackoffMs s \<and> currentBackoffMs s \<le> 10000)
   \<and> (\<exists>s. accountStates
          (calls (new_RateLimiter 1000 10000)
            [RecordRateLimitError ''a'' None 5, ShouldWait ''a'' 6 7,
             RecordRateLimitError ''a'' None 8, GetCurrentBackoff ''b'']) ''b'' = Some s \<and>
        consecutiveErrors s = 0 \<and> currentBackoffMs s = 1000)"
proof -
  let ?cs = "[RecordRateLimitError ''a'' None 5, ShouldWait ''a'' 6 7,
             RecordRateLimitError ''a'' None 8, GetCurrentBackoff ''b'']"
  let ?rl = "calls (new_RateLimiter 1000 10000) ?cs"
  have a: "accountStates ?rl ''a'' =
      Some \<lparr>consecutiveErrors = 2, resetAt = None, currentBackoffMs = 4000, lastRequestAt = Some 8\<rparr>"
    by (simp add: calls_def new_RateLimiter_def recordRateLimitError_def shouldWait_def
        backoffWait_def getCurrentBackoff_def limiter_defs)
  have b: "accountStates ?rl ''b'' =
      Some \<lparr>consecutiveErrors = 0, resetAt = None, currentBackoffMs = 1000, lastRequestAt = None\<rparr>"
    by (simp add: calls_def new_RateLimiter_def recordRateLimitError_def shouldWait_def
        backoffWait_def getCurrentBackoff_def limiter_defs)
  have 1: "(0::int) \<le> 1000" and 2: "(1000::int) \<le> 10000" by simp_all
  from backoff_invariant[OF 1 2 a] backoff_invariant[OF 1 2 b] a b
  show ?thesis by simp
qed

theorem backoff_invariant_counterexample:
  "(- 10 :: int) \<le> 10 \<and>
   accountStates (calls (new_RateLimiter (- 10) 10) [RecordRateLimitError ''a'' None 0]) ''a'' =
     Some \<lparr>consecutiveErrors = 1, resetAt = None, currentBackoffMs = - 20, lastRequestAt = Some 0\<rparr> \<and>
   \<not> (- 10 :: int) \<le> currentBackoffMs
        \<lparr>consecutiveErrors = 1, resetAt = None, currentBackoffMs = - 20, lastRequestAt = Some 0\<rparr>"
  by (simp add: calls_def new_RateLimiter_def recordRateLimitError_def limiter_defs)

text \<open>
  C8: the three read operations change nothing but the table entry of the account they
  are called on. \<open>getCurrentBackoff\<close> and \<open>getConsecutiveErrors\<close> store the state the
  account already has, which for an unseen account is the fresh default state;
  \<open>shouldWait\<close> stores that state with at most the reset time changed, and the reset
  time changes only by being cleared after it has passed. So for every account \<open>a\<close>,
  the one of the call or any other, \<open>consecutiveErrors\<close>, \<open>currentBackoffMs\<close> and
  \<open>lastRequestAt\<close> read the same before and after, and the entry of every other
  account is the same.
\<close>

theorem read_operations_frame:
  "snd (getCurrentBackoff rl acc) =
     rl\<lparr>accountStates := (accountStates rl)(acc \<mapsto> currentState rl acc)\<rparr>
   \<and> snd (getConsecutiveErrors rl acc) =
     rl\<lparr>accountStates := (accountStates rl)(acc \<mapsto> currentState rl acc)\<rparr>
   \<and> (\<exists>ra. snd (shouldWait rl acc now1 now2) =
          rl\<lparr>accountStates := (accountStates rl)(acc \<mapsto> (currentState rl acc)\<lparr>resetAt := ra\<rparr>)\<rparr>
        \<and> (ra = resetAt (currentState rl acc) \<or>
            ra = None \<and> (\<exists>r. resetAt (currentState rl acc) = Some r \<and> r \<le> now1)))
   \<and> (accountStates rl acc = None \<longrightarrow>
        currentState rl acc =
          \<lparr>consecutiveErrors = 0, resetAt = None, currentBackoffMs = baseDelayMs rl,
           lastRequestAt = None\<rparr>)
   \<and> (\<forall>rl' \<in> {snd (shouldWait rl acc now1 now2), snd (getCurrentBackoff rl acc),
                 snd (getConsecutiveErrors rl acc)}.
        consecutiveErrors (currentState rl' a) = consecutiveErrors (currentState rl a) \<and>
        currentBackoffMs (currentState rl' a) = currentBackoffMs (currentState rl a) \<and>
        lastRequestAt (currentState rl' a) = lastRequestAt (currentState rl a) \<and>
        (a \<noteq> acc \<longrightarrow> accountStates rl' a = accountStates rl a))"
proof -
  have 1: "snd (getCurrentBackoff rl acc) =
     rl\<lparr>accountStates := (accountStates rl)(acc \<mapsto> currentState rl acc)\<rparr>"
    by (auto simp add: getCurrentBackoff_def limiter_defs fun_upd_idem split: option.splits)
  have 2: "snd (getConsecutiveErrors rl acc) =
     rl\<lparr>accountStates := (accountStates rl)(acc \<mapsto> currentState rl acc)\<rparr>"
    by (auto simp add: getConsecutiveErrors_def limiter_defs fun_upd_idem split: option.splits)
  have 3: "\<exists>ra. snd (shouldWait rl acc now1 now2) =
          rl\<lparr>accountStates := (accountStates rl)(acc \<mapsto> (currentState rl acc)\<lparr>resetAt := ra\<rparr>)\<rparr>
        \<and> (ra = resetAt (currentState rl acc) \<or>
            ra = None \<and> (\<exists>r. resetAt (currentState rl acc) = Some r \<and> r \<le> now1))"
  proof (cases "\<exists>r. resetAt (currentState rl acc) = Some r \<and> r \<le> now1")
    case True
    then have "snd (shouldWait rl acc now1 now2) =
          rl\<lparr>accountStates := (accountStates rl)(acc \<mapsto> (currentState rl acc)\<lparr>resetAt := None\<rparr>)\<rparr>"
      by (auto simp add: shouldWait_def limiter_defs split: option.splits)
    with True show ?thesis by blast
  next
    case False
    then have "snd (shouldWait rl acc now1 now2) =
          rl\<lparr>accountStates := (accountStates rl)(acc \<mapsto>
                (currentState rl acc)\<lparr>resetAt := resetAt (currentState rl acc)\<rparr>)\<rparr>"
      by (auto simp add: shouldWait_def limiter_defs fun_upd_idem split: option.splits)
    then show ?thesis by blast
  qed
  have 4: "accountStates rl acc = None \<longrightarrow>
        currentState rl acc =
          \<lparr>consecutiveErrors = 0, resetAt = None, currentBackoffMs = baseDelayMs rl,
           lastRequestAt = None\<rparr>"
    by (simp add: limiter_defs)
  have view: "consecutiveErrors (currentState rl' a) = consecutiveErrors (currentState rl a) \<and>
        currentBackoffMs (currentState rl' a) = currentBackoffMs (currentState rl a) \<and>
        lastRequestAt (currentState rl' a) = lastRequestAt (currentState rl a) \<and>
        (a \<noteq> acc \<longrightarrow> accountStates rl' a = accountStates rl a)"
    if "rl' = rl\<lparr>accountStates := (accountStates rl)(acc \<mapsto> (currentState rl acc)\<lparr>resetAt := ra\<rparr>)\<rparr>"
    for rl' ra
    using that by (auto simp add: limiter_defs split: option.splits)
  have v1: "snd (getCurrentBackoff rl acc) =
     rl\<lparr>accountStates := (accountStates rl)(acc \<mapsto>
          (currentState rl acc)\<lparr>resetAt := resetAt (currentState rl acc)\<rparr>)\<rparr>"
    using 1 by simp
  have v2: "snd (getConsecutiveErrors rl acc) =
     rl\<lparr>accountStates := (accountStates rl)(acc \<mapsto>
          (currentState rl acc)\<lparr>resetAt := resetAt (currentState rl acc)\<rparr>)\<rparr>"
    using 2 by simp
  have 5: "\<forall>rl' \<in> {snd (shouldWait rl acc now1 now2), snd (getCurrentBackoff rl acc),
                 snd (getConsecutiveErrors rl acc)}.
        consecutiveErrors (currentState rl' a) = consecutiveErrors (currentState rl a) \<and>
        currentBackoffMs (currentState rl' a) = currentBackoffMs (currentState rl a) \<and>
        lastRequestAt (currentState rl' a) = lastRequestAt (currentState rl a) \<and>
        (a \<noteq> acc \<longrightarrow> accountStates rl' a = accountStates rl a)"
    using 3 view[OF v1] view[OF v2] view by blast
  show ?thesis using 1 2 3 4 5 by blast
qed

theorem read_operations_frame_witness:
  "accountStates
     (snd (shouldWait (recordRateLimitError (new_RateLimiter 1000 10000) ''a'' (Some 50) 10) ''a'' 60 70))
     ''b'' = None
   \<and> consecutiveErrors
       (currentState
         (snd (shouldWait (recordRateLimitError (new_RateLimiter 1000 10000) ''a'' (Some 50) 10) ''a'' 60 70))
         ''a'') = 1
   \<and> currentState (new_RateLimiter 1000 10000) ''b'' =
       \<lparr>consecutiveErrors = 0, resetAt = None, currentBackoffMs = 1000, lastRequestAt = None\<rparr>
   \<and> accountStates (snd (getConsecutiveErrors (new_RateLimiter 1000 10000) ''b'')) ''b'' =
       Some \<lparr>consecutiveErrors = 0, resetAt = None, currentBackoffMs = 1000, lastRequestAt = None\<rparr>"
proof -
  let ?R = "recordRateLimitError (new_RateLimiter 1000 10000) ''a'' (Some 50) 10"
  let ?N = "new_RateLimiter 1000 10000"
  have s: "currentState ?R ''a'' =
      \<lparr>consecutiveErrors = 1, resetAt = Some 50, currentBackoffMs = 1000, lastRequestAt = Some 10\<rparr>"
    and t: "accountStates ?R ''b'' = None"
    by (simp_all add: recordRateLimitError_def new_RateLimiter_def limiter_defs)
  have n: "accountStates ?N ''b'' = None" "baseDelayMs ?N = 1000"
    by (simp_all add: new_RateLimiter_def)
  have 1: "accountStates (snd (shouldWait ?R ''a'' 60 70)) ''b'' = None"
    using read_operations_frame[of ?R "''a''" 60 70 "''b''"] t by simp
  have 2: "consecutiveErrors (currentState (snd (shouldWait ?R ''a'' 60 70)) ''a'') = 1"
    using read_operations_frame[of ?R "''a''" 60 70 "''a''"] s by simp
  have 3: "currentState ?N ''b'' =
       \<lparr>consecutiveErrors = 0, resetAt = None, currentBackoffMs = 1000, lastRequestAt = None\<rparr>"
    using read_operations_frame[of ?N "''b''" 0 0 "''b''"] n by simp
  have 4: "accountStates (snd (getConsecutiveErrors ?N ''b'')) ''b'' =
       Some \<lparr>consecutiveErrors = 0, resetAt = None, currentBackoffMs = 1000, lastRequestAt = None\<rparr>"
    using read_operations_frame[of ?N "''b''" 0 0 "''b''"] n 3 by simp
  show ?thesis using 1 2 3 4 by simp
qed

section \<open>Properties of the header parser\<close>

lemmas parse_defs = parseInt10_def isStrWhiteSpaceChar_def isDecimalDigit_def digitsValue_def
  digitValue_def headers_get_def Let_def

text \<open>
  C3, as amended: \<open>parseRateLimitHeaders\<close> tries Retry-After first: a value that
  \<open>parseInt\<close> reads as an integer yields now plus that many seconds, otherwise a value
  that parses as a date yields that instant. When Retry-After is absent or parses as
  neither, an X-RateLimit-Reset value that \<open>parseInt\<close> reads as an integer yields an
  instant: a value up to and including 10,000,000,000 is taken as seconds since the epoch
  and multiplied by 1000, a value strictly above 10,000,000,000 is taken as milliseconds
  already. Each of these holds when the instant is a time value a \<open>Date\<close> can hold (at
  most 8,640,000,000,000,000 ms in magnitude), the clock reading being one; what is
  returned for an instant beyond that range is not part of the statement. With no header
  that parses, the result is nothing.
\<close>

theorem parseRateLimitHeaders_cases:
  "(headers_get h ''retry-after'' = Some ra \<and> parseInt10 ra = Some seconds \<and>
    isTimeValue now \<and> isTimeValue (now + seconds * 1000) \<longrightarrow>
      parseRateLimitHeaders dp now h = Some (TimeValue (now + seconds * 1000)))
   \<and> (headers_get h ''retry-after'' = Some ra \<and> parseInt10 ra = None \<and> dp ra = Some date \<and>
      isTimeValue date \<longrightarrow>
      parseRateLimitHeaders dp now h = Some (TimeValue date))
   \<and> ((headers_get h ''retry-after'' = None \<or>
        (headers_get h ''retry-after'' = Some ra \<and> parseInt10 ra = None \<and> dp ra = None)) \<longrightarrow>
       (headers_get h ''x-ratelimit-reset'' = Some rr \<and> parseInt10 rr = Some ts \<and>
        ts \<le> 10000000000 \<and> isTimeValue (ts * 1000) \<longrightarrow>
          parseRateLimitHeaders dp now h = Some (TimeValue (ts * 1000)))
       \<and> (headers_get h ''x-ratelimit-reset'' = Some rr \<and> parseInt10 rr = Some ts \<and>
          10000000000 < ts \<and> isTimeValue ts \<longrightarrow>
          parseRateLimitHeaders dp now h = Some (TimeValue ts))
       \<and> (headers_get h ''x-ratelimit-reset'' = None \<or>
          (headers_get h ''x-ratelimit-reset'' = Some rr \<and> parseInt10 rr = None) \<longrightarrow>
          parseRateLimitHeaders dp now h = None))"
  by (auto simp add: parseRateLimitHeaders_def new_Date_def Let_def split: option.splits)

theorem parseRateLimitHeaders_cases_witness:
  "parseRateLimitHeaders noDate 5000 [(''retry-after'', ''60'')] = Some (TimeValue 65000)
   \<and> parseRateLimitHeaders (\<lambda>s. if s = ''Wed, 21 Oct 2015 07:28:00 GMT'' then Some 1445412480000 else None)
        5000 [(''retry-after'', ''Wed, 21 Oct 2015 07:28:00 GMT'')] = Some (TimeValue 1445412480000)
   \<and> parseRateLimitHeaders noDate 5000 [(''x-ratelimit-reset'', ''1700000000'')] =
        Some (TimeValue 1700000000000)
   \<and> parseRateLimitHeaders noDate 5000 [(''retry-after'', ''soon''), (''x-ratelimit-reset'', ''1700000000000'')]
        = Some (TimeValue 1700000000000)
   \<and> parseRateLimitHeaders noDate 5000 [(''content-type'', ''application/json'')] = None"
proof -
  let ?dp = "\<lambda>s. if s = ''Wed, 21 Oct 2015 07:28:00 GMT'' then Some (1445412480000::int) else None"
  have p: "parseInt10 ''60'' = Some 60" "parseInt10 ''Wed, 21 Oct 2015 07:28:00 GMT'' = None"
    "parseInt10 ''1700000000'' = Some 1700000000" "parseInt10 ''soon'' = None"
    "parseInt10 ''1700000000000'' = Some 1700000000000"
    by (simp_all add: parse_defs)
  have 1: "parseRateLimitHeaders noDate 5000 [(''retry-after'', ''60'')] = Some (TimeValue 65000)"
    using parseRateLimitHeaders_cases[where h = "[(''retry-after'', ''60'')]" and ra = "''60''"
        and seconds = 60 and dp = noDate and now = 5000]
    by (simp add: p headers_get_def isTimeValue_def)
  have 2: "parseRateLimitHeaders ?dp 5000 [(''retry-after'', ''Wed, 21 Oct 2015 07:28:00 GMT'')]
             = Some (TimeValue 1445412480000)"
    using parseRateLimitHeaders_cases[where h = "[(''retry-after'', ''Wed, 21 Oct 2015 07:28:00 GMT'')]"
        and ra = "''Wed, 21 Oct 2015 07:28:00 GMT''" and dp = ?dp and date = 1445412480000
        and now = 5000]
    by (simp add: p headers_get_def isTimeValue_def)
  have 3: "parseRateLimitHeaders noDate 5000 [(''x-ratelimit-reset'', ''1700000000'')] =
             Some (TimeValue 1700000000000)"
    using parseRateLimitHeaders_cases[where h = "[(''x-ratelimit-reset'', ''1700000000'')]"
        and dp = noDate and rr = "''1700000000''" and ts = 1700000000 and now = 5000]
    by (simp add: p headers_get_def isTimeValue_def)
  have 4: "parseRateLimitHeaders noDate 5000
             [(''retry-after'', ''soon''), (''x-ratelimit-reset'', ''1700000000000'')] =
             Some (TimeValue 1700000000000)"
    using parseRateLimitHeaders_cases[where
        h = "[(''retry-after'', ''soon''), (''x-ratelimit-reset'', ''1700000000000'')]"
        and ra = "''soon''" and dp = noDate and rr = "''1700000000000''" and ts = 1700000000000
        and now = 5000]
    by (simp add: p headers_get_def noDate_def isTimeValue_def)
  have 5: "parseRateLimitHeaders noDate 5000 [(''content-type'', ''application/json'')] = None"
    using parseRateLimitHeaders_cases[where h = "[(''content-type'', ''application/json'')]"
        and dp = noDate and now = 5000]
    by (simp add: headers_get_def)
  show ?thesis using 1 2 3 4 5 by simp
qed

theorem parseRateLimitHeaders_threshold_counterexample:
  "parseInt10 ''10000000000'' = Some 10000000000 \<and>
   parseRateLimitHeaders noDate 0 [(''x-ratelimit-reset'', ''10000000000'')] =
     Some (TimeValue 10000000000000) \<and>
   parseRateLimitHeaders noDate 0 [(''x-ratelimit-reset'', ''10000000000'')] \<noteq>
     Some (TimeValue 10000000000)"
  by (simp add: parseRateLimitHeaders_def parse_defs noDate_def new_Date_def isTimeValue_def)

text \<open>
  Beyond the range of time values the integer branches return an Invalid Date, which is
  not the instant: for \<open>Retry-After: 9000000000000\<close> at clock reading 1000 the parser
  returns a date, and the date is invalid. The dispatcher then finds no positive
  \<open>getRetryAfterMs\<close> and sleeps for the current backoff of the account.
\<close>

lemma parseRateLimitHeaders_invalid_date:
  "parseRateLimitHeaders noDate 1000 [(''retry-after'', ''9000000000000'')] = Some InvalidDate
   \<and> parseRateLimitHeaders noDate 1000 [(''x-ratelimit-reset'', ''9007199254740993'')] =
       Some InvalidDate
   \<and> getRetryAfterMs (new_RateLimitError ''Rate limit exceeded''
         (emptyContext\<lparr>rateLimitResetAt := Some InvalidDate\<rparr>)) 1000 = None"
  by (simp add: parseRateLimitHeaders_def parse_defs noDate_def new_Date_def isTimeValue_def
      getRetryAfterMs_def new_RateLimitError_def new_UnipileError_def emptyContext_def)

section \<open>Properties of the HTTP client\<close>

lemmas error_defs = new_UnipileError_def new_TimeoutError_def new_ConnectionError_def
  new_RateLimitError_def new_AuthError_def new_NotFoundError_def new_ValidationError_def

lemma executeRequest_fst:
  assumes "buildUrl env (baseUrl (client w)) (path options) (params options) = Inr u"
  shows "fst (executeRequest env options attempt w) =
     (case (case fetch env (fetchCalls w) u (buildFetchOptions (client w) options) of
              Rejected thrown \<Rightarrow> Inl thrown
            | Resolved response \<Rightarrow>
                handleResponse env (clock env (clockReads w)) response options attempt) of
        Inr r \<Rightarrow> Inr r
      | Inl error \<Rightarrow>
          Inl (wrapThrown u options (orDefault (optTimeout options) (timeout (client w)))
                 attempt error))"
  using assms
  by (simp add: executeRequest_def readClock_def Let_def split: sum.splits FetchOutcome.splits)

lemma handleResponse_status:
  "status r = 429 \<Longrightarrow> failsWith (handleResponse env now r options attempt) RATE_LIMIT True"
  "status r = 401 \<or> status r = 403 \<Longrightarrow> failsWith (handleResponse env now r options attempt) AUTH False"
  "status r = 400 \<or> status r = 422 \<Longrightarrow> failsWith (handleResponse env now r options attempt) VALIDATION False"
  "status r = 404 \<Longrightarrow> failsWith (handleResponse env now r options attempt) NOT_FOUND False"
  "500 \<le> status r \<Longrightarrow> failsWith (handleResponse env now r options attempt) UNKNOWN True"
  "400 \<le> status r \<Longrightarrow> status r < 500 \<Longrightarrow> status r \<notin> {400, 401, 403, 404, 422, 429} \<Longrightarrow>
     failsWith (handleResponse env now r options attempt) UNKNOWN False"
  by (auto simp add: handleResponse_def failsWith_def error_defs Let_def)

lemma wrapThrown_typed: "\<exists>e. wrapThrown u options tmo attempt error = ThrownUnipile e"
  by (simp add: wrapThrown_def Let_def split: Thrown.splits)

lemma wrapThrown_unipile: "wrapThrown u options tmo attempt (ThrownUnipile e) = ThrownUnipile e"
  by (simp add: wrapThrown_def Let_def)

lemma executeRequest_typed_calls:
  assumes "executeRequest env options attempt w = (Inl (ThrownUnipile e), w1)"
  shows "fetchCalls w1 = fetchCalls w + 1 \<and> client w1 = client w"
  using assms
  by (auto simp add: executeRequest_def readClock_def Let_def split: sum.splits FetchOutcome.splits)

lemma attemptLoop_nonretryable:
  assumes "attempt \<le> maxAttempts"
    and "executeRequest env options attempt w = (Inl (ThrownUnipile e), w1)"
    and "\<not> isRetryable e"
  shows "attemptLoop env options acc maxAttempts attempt lastError w = (Inl (ThrownUnipile e), w1)"
  using assms by (subst attemptLoop.simps) simp

lemma checkRateLimit_frame:
  assumes "checkRateLimit env acc w = (t, w1)"
  shows "fetchCalls w1 = fetchCalls w \<and> enableRetry (client w1) = enableRetry (client w) \<and>
         maxRetries (client w1) = maxRetries (client w) \<and> baseUrl (client w1) = baseUrl (client w)"
  using assms
  by (auto simp add: checkRateLimit_def readClock_def setRateLimiter_def sleep_def Let_def
      split: prod.splits if_splits)

lemma executeRequest_client:
  "client (snd (executeRequest env options attempt w)) = client w"
  by (simp add: executeRequest_def readClock_def Let_def split: sum.splits FetchOutcome.splits prod.splits)

lemma backoffBeforeRetry_baseUrl:
  "baseUrl (client (backoffBeforeRetry env acc e attempt w)) = baseUrl (client w)"
  by (simp add: backoffBeforeRetry_def readClock_def setRateLimiter_def sleep_def Let_def
      split: prod.splits)

lemma executeRequest_typed:
  assumes "buildUrl env (baseUrl (client w)) (path options) (params options) = Inr u"
    and "fst (executeRequest env options attempt w) = Inl thrown"
  shows "\<exists>e. thrown = ThrownUnipile e"
  using assms(2) wrapThrown_typed
  by (auto simp add: executeRequest_fst[OF assms(1)] split: sum.splits)

text \<open>The loop and the whole request throw nothing but errors of the taxonomy, when the URL
  of the request can be built.\<close>

lemma attemptLoop_typed:
  assumes "buildUrl env (baseUrl (client w)) (path options) (params options) = Inr u"
    and "lastError = None \<or> (\<exists>e. lastError = Some (ThrownUnipile e))"
    and "fst (attemptLoop env options acc maxAttempts attempt lastError w) = Inl thrown"
  shows "\<exists>e. thrown = ThrownUnipile e"
  using assms
proof (induction env options acc maxAttempts attempt lastError w rule: attemptLoop.induct)
  case (1 env options accountId maxAttempts attempt lastError w)
  show ?case
  proof (cases "attempt \<le> maxAttempts")
    case False
    then show ?thesis using "1.prems"(2,3)
      by (subst (asm) attemptLoop.simps) (auto split: option.splits)
  next
    case True
    obtain res w1 where x: "executeRequest env options attempt w = (res, w1)"
      by (cases "executeRequest env options attempt w")
    have cl: "client w1 = client w" using executeRequest_client[of env options attempt w] x by simp
    show ?thesis
    proof (cases res)
      case (Inr response)
      then show ?thesis using "1.prems"(3) True x
        by (subst (asm) attemptLoop.simps) (simp add: Let_def split: prod.splits)
    next
      case (Inl error)
      then have "\<exists>e. error = ThrownUnipile e"
        using executeRequest_typed[OF "1.prems"(1), of attempt error] x by simp
      then obtain e where e: "error = ThrownUnipile e" by blast
      show ?thesis
      proof (cases "\<not> isRetryable e \<or> attempt \<ge> maxAttempts")
        case stop: True
        then show ?thesis using "1.prems"(3) True x Inl e
          by (subst (asm) attemptLoop.simps) auto
      next
        case go: False
        let ?w' = "backoffBeforeRetry env accountId e attempt w1"
        have u': "buildUrl env (baseUrl (client ?w')) (path options) (params options) = Inr u"
          using "1.prems"(1) cl by (simp add: backoffBeforeRetry_baseUrl)
        have rec: "fst (attemptLoop env options accountId maxAttempts (attempt + 1)
                     (Some (asError error)) ?w') = Inl thrown"
          using "1.prems"(3) True x Inl e go
          by (subst (asm) attemptLoop.simps) (simp add: asError_def)
        have le: "Some (asError error) = None \<or> (\<exists>e'. Some (asError error) = Some (ThrownUnipile e'))"
          using e by (simp add: asError_def)
        show ?thesis
          using "1.IH"[OF True x[symmetric] Inl e _ u' le rec] go by blast
      qed
    qed
  qed
qed

lemma request_typed:
  assumes "buildUrl env (baseUrl (client w)) (path options) (params options) = Inr u"
    and "fst (request env options w) = Inl thrown"
  shows "\<exists>e. thrown = ThrownUnipile e"
proof -
  let ?acc = "orDefault (optAccountId options) ''global''"
  obtain t w1 where c: "checkRateLimit env ?acc w = (t, w1)"
    by (cases "checkRateLimit env ?acc w")
  have b: "baseUrl (client w1) = baseUrl (client w)" using checkRateLimit_frame[OF c] by simp
  show ?thesis
  proof (cases t)
    case None
    then show ?thesis
      using assms c b attemptLoop_typed[of env w1 options u None ?acc _ 1 thrown]
      by (simp add: request_def Let_def)
  next
    case (Some th)
    then have "\<exists>e. th = ThrownUnipile e"
      using c by (auto simp add: checkRateLimit_def Let_def split: prod.splits if_splits)
    then show ?thesis using assms(2) c Some by (simp add: request_def Let_def)
  qed
qed

text \<open>
  C4: one attempt whose URL could be built fails, whatever the transport call settles to,
  with an error of the taxonomy whose category and retryability follow from the outcome:
  status 429 gives \<open>rate_limit\<close> (retryable); 401 and 403 give \<open>auth\<close>, 400 and 422
  \<open>validation\<close>, 404 \<open>not_found\<close> (none retryable); a status from 500 on gives
  \<open>unknown\<close> (retryable) and any other status from 400 on \<open>unknown\<close> (not
  retryable). A rejection with an \<open>Error\<close> named AbortError (the cancellation) gives
  \<open>timeout\<close>; with another \<open>Error\<close> whose message holds ECONNREFUSED, ENOTFOUND
  or network it gives \<open>connection\<close>; with any other \<open>Error\<close>, or a value that is no
  \<open>Error\<close>, it gives \<open>unknown\<close> (all three retryable); and an error of the
  taxonomy is rethrown as it is. Whenever the attempt fails at all, also while decoding a
  successful response, what it throws is an error of the taxonomy; and so is whatever a
  whole \<open>request\<close> from that world throws.
\<close>

theorem executeRequest_error_classification:
  assumes url: "buildUrl env (baseUrl (client w)) (path options) (params options) = Inr u"
    and out: "fetch env (fetchCalls w) u (buildFetchOptions (client w) options) = outcome"
  shows "(outcome = Resolved r \<and> status r = 429 \<longrightarrow>
            failsWith (fst (executeRequest env options attempt w)) RATE_LIMIT True)
    \<and> (outcome = Resolved r \<and> (status r = 401 \<or> status r = 403) \<longrightarrow>
            failsWith (fst (executeRequest env options attempt w)) AUTH False)
    \<and> (outcome = Resolved r \<and> (status r = 400 \<or> status r = 422) \<longrightarrow>
            failsWith (fst (executeRequest env options attempt w)) VALIDATION False)
    \<and> (outcome = Resolved r \<and> status r = 404 \<longrightarrow>
            failsWith (fst (executeRequest env options attempt w)) NOT_FOUND False)
    \<and> (outcome = Resolved r \<and> 500 \<le> status r \<longrightarrow>
            failsWith (fst (executeRequest env options attempt w)) UNKNOWN True)
    \<and> (outcome = Resolved r \<and> 400 \<le> status r \<and> status r < 500 \<and>
         status r \<notin> {400, 401, 403, 404, 422, 429} \<longrightarrow>
            failsWith (fst (executeRequest env options attempt w)) UNKNOWN False)
    \<and> (outcome = Rejected (ThrownError err) \<and> errorName err = ''AbortError'' \<longrightarrow>
            failsWith (fst (executeRequest env options attempt w)) TIMEOUT True)
    \<and> (outcome = Rejected (ThrownError err) \<and> errorName err \<noteq> ''AbortError'' \<and>
         (str_includes (errorMessage err) ''ECONNREFUSED'' \<or>
          str_includes (errorMessage err) ''ENOTFOUND'' \<or>
          str_includes (errorMessage err) ''network'') \<longrightarrow>
            failsWith (fst (executeRequest env options attempt w)) CONNECTION True)
    \<and> (outcome = Rejected (ThrownError err) \<and> errorName err \<noteq> ''AbortError'' \<and>
         \<not> str_includes (errorMessage err) ''ECONNREFUSED'' \<and>
         \<not> str_includes (errorMessage err) ''ENOTFOUND'' \<and>
         \<not> str_includes (errorMessage err) ''network'' \<longrightarrow>
            failsWith (fst (executeRequest env options attempt w)) UNKNOWN True)
    \<and> (outcome = Rejected (ThrownValue v) \<longrightarrow>
            failsWith (fst (executeRequest env options attempt w)) UNKNOWN True)
    \<and> (outcome = Rejected (ThrownUnipile e) \<longrightarrow>
            fst (executeRequest env options attempt w) = Inl (ThrownUnipile e))
    \<and> (fst (executeRequest env options attempt w) = Inl thrown \<longrightarrow>
            (\<exists>e'. thrown = ThrownUnipile e'))
    \<and> (fst (request env options w) = Inl thrown \<longrightarrow> (\<exists>e'. thrown = ThrownUnipile e'))"
proof -
  let ?R = "fst (executeRequest env options attempt w)"
  let ?tmo = "orDefault (optTimeout options) (timeout (client w))"
  let ?now = "clock env (clockReads w)"
  note R = executeRequest_fst[OF url, of attempt, unfolded out]
  have resp: "failsWith ?R cat b"
    if "outcome = Resolved r" and "failsWith (handleResponse env ?now r options attempt) cat b" for cat b
    using that by (auto simp add: R failsWith_def wrapThrown_unipile)
  have rej: "?R = Inl (wrapThrown u options ?tmo attempt t)" if "outcome = Rejected t" for t
    using that by (simp add: R)
  have 1: "outcome = Resolved r \<and> status r = 429 \<longrightarrow> failsWith ?R RATE_LIMIT True"
    using resp handleResponse_status(1) by blast
  have 2: "outcome = Resolved r \<and> (status r = 401 \<or> status r = 403) \<longrightarrow> failsWith ?R AUTH False"
    using resp handleResponse_status(2) by blast
  have 3: "outcome = Resolved r \<and> (status r = 400 \<or> status r = 422) \<longrightarrow> failsWith ?R VALIDATION False"
    using resp handleResponse_status(3) by blast
  have 4: "outcome = Resolved r \<and> status r = 404 \<longrightarrow> failsWith ?R NOT_FOUND False"
    using resp handleResponse_status(4) by blast
  have 5: "outcome = Resolved r \<and> 500 \<le> status r \<longrightarrow> failsWith ?R UNKNOWN True"
    using resp handleResponse_status(5) by blast
  have 6: "outcome = Resolved r \<and> 400 \<le> status r \<and> status r < 500 \<and>
         status r \<notin> {400, 401, 403, 404, 422, 429} \<longrightarrow> failsWith ?R UNKNOWN False"
    using resp handleResponse_status(6) by blast
  have 7: "outcome = Rejected (ThrownError err) \<and> errorName err = ''AbortError'' \<longrightarrow>
            failsWith ?R TIMEOUT True"
    using rej[of "ThrownError err"]
    by (auto simp add: failsWith_def wrapThrown_def error_defs Let_def)
  have 8: "outcome = Rejected (ThrownError err) \<and> errorName err \<noteq> ''AbortError'' \<and>
         (str_includes (errorMessage err) ''ECONNREFUSED'' \<or>
          str_includes (errorMessage err) ''ENOTFOUND'' \<or>
          str_includes (errorMessage err) ''network'') \<longrightarrow> failsWith ?R CONNECTION True"
    using rej[of "ThrownError err"]
    by (auto simp add: failsWith_def wrapThrown_def error_defs Let_def)
  have 9: "outcome = Rejected (ThrownError err) \<and> errorName err \<noteq> ''AbortError'' \<and>
         \<not> str_includes (errorMessage err) ''ECONNREFUSED'' \<and>
         \<not> str_includes (errorMessage err) ''ENOTFOUND'' \<and>
         \<not> str_includes (errorMessage err) ''network'' \<longrightarrow> failsWith ?R UNKNOWN True"
    using rej[of "ThrownError err"]
    by (auto simp add: failsWith_def wrapThrown_def error_defs Let_def)
  have 10: "outcome = Rejected (ThrownValue v) \<longrightarrow> failsWith ?R UNKNOWN True"
    using rej[of "ThrownValue v"]
    by (auto simp add: failsWith_def wrapThrown_def error_defs Let_def)
  have 11: "outcome = Rejected (ThrownUnipile e) \<longrightarrow> ?R = Inl (ThrownUnipile e)"
    using rej[of "ThrownUnipile e"] by (simp add: wrapThrown_unipile)
  have 12: "?R = Inl thrown \<longrightarrow> (\<exists>e'. thrown = ThrownUnipile e')"
    using wrapThrown_typed by (auto simp add: R split: sum.splits)
  have 13: "fst (request env options w) = Inl thrown \<longrightarrow> (\<exists>e'. thrown = ThrownUnipile e')"
    using request_typed[OF url] by blast
  show ?thesis
    using 1 2 3 4 5 6 7 8 9 10 11 12 13 by blast
qed

text \<open>
  C5: when \<open>shouldWait\<close> for the account bucket of the request (the account id, or
  \<open>global\<close>) is positive and retry is disabled on the client, \<open>request\<close> fails at
  once: it throws a \<open>RateLimitError\<close> of category \<open>rate_limit\<close> whose context and
  \<open>resetAt\<close> hold the computed reset time, the date \<open>new Date(now + wait)\<close>
  for the next clock reading \<open>now\<close> (the instant \<open>now + wait\<close> itself whenever
  that is a time value a \<open>Date\<close> can hold); it has not slept; and the count of
  transport invocations is what it was before the call.
\<close>

theorem request_rate_limited_without_retry:
  assumes "fst (shouldWait (rateLimiter (client w)) (orDefault (optAccountId options) ''global'')
                  (clock env (clockReads w)) (clock env (clockReads w + 1))) = waitTime"
    and "0 < waitTime"
    and "\<not> enableRetry (client w)"
  shows "(\<exists>e. fst (request env options w) = Inl (ThrownUnipile e) \<and>
             errorClass e = RateLimitErrorClass \<and> category e = RATE_LIMIT \<and>
             rateLimitResetAt (errContext e) =
               Some (new_Date (clock env (clockReads w + 2) + waitTime)) \<and>
             errResetAt e = Some (new_Date (clock env (clockReads w + 2) + waitTime)) \<and>
             (isTimeValue (clock env (clockReads w + 2) + waitTime) \<longrightarrow>
                rateLimitResetAt (errContext e) =
                  Some (TimeValue (clock env (clockReads w + 2) + waitTime))))
         \<and> fetchCalls (snd (request env options w)) = fetchCalls w
         \<and> sleeps (snd (request env options w)) = sleeps w"
  using assms
  by (auto simp add: request_def checkRateLimit_def readClock_def setRateLimiter_def Let_def
      error_defs new_Date_def split: prod.splits)

text \<open>
  C6, as amended: an error of the taxonomy that is not retryable is never retried. In the loop, for
  every attempt number up to the allowed maximum, every maximum and every earlier error: if
  the attempt fails with such an error, the loop ends there with that error, after the one
  transport invocation of that attempt. For a whole \<open>request\<close> that passes the rate
  limit check and is allowed at least one attempt (retry disabled, or \<open>maxRetries\<close> at
  least 1): if the first attempt fails with such an error, the request fails with that
  error and the transport has been invoked exactly once. With retry enabled and
  \<open>maxRetries\<close> below 1 the loop body never runs, so no attempt can fail.
\<close>

theorem request_nonretryable_not_retried:
  "(attempt \<le> maxAttempts \<and>
    executeRequest env options attempt w = (Inl (ThrownUnipile e), w1) \<and> \<not> isRetryable e \<longrightarrow>
      attemptLoop env options acc maxAttempts attempt lastError w = (Inl (ThrownUnipile e), w1) \<and>
      fetchCalls w1 = fetchCalls w + 1)
   \<and> (checkRateLimit env (orDefault (optAccountId options) ''global'') w = (None, w0) \<and>
      (enableRetry (client w) \<longrightarrow> 1 \<le> maxRetries (client w)) \<and>
      fst (executeRequest env options 1 w0) = Inl (ThrownUnipile e) \<and> \<not> isRetryable e \<longrightarrow>
        fst (request env options w) = Inl (ThrownUnipile e) \<and>
        fetchCalls (snd (request env options w)) = fetchCalls w + 1)"
proof -
  have a: "attemptLoop env options acc maxAttempts attempt lastError w = (Inl (ThrownUnipile e), w1) \<and>
      fetchCalls w1 = fetchCalls w + 1"
    if "attempt \<le> maxAttempts" "executeRequest env options attempt w = (Inl (ThrownUnipile e), w1)"
      "\<not> isRetryable e"
    using attemptLoop_nonretryable[OF that] executeRequest_typed_calls[OF that(2)] by simp
  have b: "fst (request env options w) = Inl (ThrownUnipile e) \<and>
        fetchCalls (snd (request env options w)) = fetchCalls w + 1"
    if c: "checkRateLimit env (orDefault (optAccountId options) ''global'') w = (None, w0)"
      and m: "enableRetry (client w) \<longrightarrow> 1 \<le> maxRetries (client w)"
      and x: "fst (executeRequest env options 1 w0) = Inl (ThrownUnipile e)" and n: "\<not> isRetryable e"
  proof -
    obtain w1' where x': "executeRequest env options 1 w0 = (Inl (ThrownUnipile e), w1')"
      using x by (cases "executeRequest env options 1 w0") simp
    let ?m = "if enableRetry (client w0) then maxRetries (client w0) else 1"
    have le: "1 \<le> ?m" using m checkRateLimit_frame[OF c] by simp
    have "request env options w = attemptLoop env options (orDefault (optAccountId options) ''global'') ?m 1 None w0"
      using c by (simp add: request_def Let_def)
    also have "\<dots> = (Inl (ThrownUnipile e), w1')"
      using attemptLoop_nonretryable[OF le x' n] .
    finally show ?thesis
      using executeRequest_typed_calls[OF x'] checkRateLimit_frame[OF c] by simp
  qed
  show ?thesis using a b by blast
qed

lemma executeRequest_resolved:
  assumes "buildUrl env (baseUrl (client w)) (path options) (params options) = Inr u"
    and "fetch env (fetchCalls w) u (buildFetchOptions (client w) options) = Resolved r"
    and "failsWith (handleResponse env (clock env (clockReads w)) r options attempt) cat b"
  shows "failsWith (fst (executeRequest env options attempt w)) cat b"
  using assms(2,3)
  by (auto simp add: executeRequest_fst[OF assms(1)] failsWith_def wrapThrown_unipile)

lemmas fixture_defs = testEnv_def queuedFetch_def testClient_def new_HttpClient_def newWorld_def
  getOptions_def mockResponse_def orDefault_def buildUrl_def new_RateLimiter_def

lemma testEnv_url:
  "buildUrl (testEnv os) (baseUrl (client (newWorld (testClient retry n)))) (path (getOptions ''/test'' a))
     (params (getOptions ''/test'' a)) = Inr ''https://api.example.com/test''"
  by (simp add: fixture_defs)

lemma testEnv_fetch:
  "fetch (testEnv [x]) (fetchCalls (newWorld c)) u fo = x"
  by (simp add: fixture_defs)

lemma connectivity_markers:
  "str_includes ''connect ECONNREFUSED 127.0.0.1:443'' ''ECONNREFUSED''"
  "\<not> str_includes ''Unexpected internal error'' ''ECONNREFUSED''"
  "\<not> str_includes ''Unexpected internal error'' ''ENOTFOUND''"
  "\<not> str_includes ''Unexpected internal error'' ''network''"
  by (simp_all add: str_includes_def sublist_code)

theorem executeRequest_error_classification_witness:
  "failsWith (fst (executeRequest (testEnv [Resolved (mockResponse 429 [(''retry-after'', ''60'')] JNull)])
                    (getOptions ''/test'' None) 1 (newWorld (testClient False 5)))) RATE_LIMIT True
   \<and> failsWith (fst (executeRequest (testEnv [Resolved (mockResponse 401 [] JNull)])
                    (getOptions ''/test'' None) 1 (newWorld (testClient False 5)))) AUTH False
   \<and> failsWith (fst (executeRequest (testEnv [Resolved (mockResponse 422 [] JNull)])
                    (getOptions ''/test'' None) 1 (newWorld (testClient False 5)))) VALIDATION False
   \<and> failsWith (fst (executeRequest (testEnv [Resolved (mockResponse 404 [] JNull)])
                    (getOptions ''/test'' None) 1 (newWorld (testClient False 5)))) NOT_FOUND False
   \<and> failsWith (fst (executeRequest (testEnv [Resolved (mockResponse 503 [] JNull)])
                    (getOptions ''/test'' None) 1 (newWorld (testClient False 5)))) UNKNOWN True
   \<and> failsWith (fst (executeRequest (testEnv [Resolved (mockResponse 405 [] JNull)])
                    (getOptions ''/test'' None) 1 (newWorld (testClient False 5)))) UNKNOWN False
   \<and> failsWith (fst (executeRequest
                    (testEnv [Rejected (ThrownError \<lparr>errorName = ''AbortError'', errorMessage = ''Aborted''\<rparr>)])
                    (getOptions ''/test'' None) 1 (newWorld (testClient False 5)))) TIMEOUT True
   \<and> failsWith (fst (executeRequest
                    (testEnv [Rejected (ThrownError \<lparr>errorName = ''Error'',
                                errorMessage = ''connect ECONNREFUSED 127.0.0.1:443''\<rparr>)])
                    (getOptions ''/test'' None) 1 (newWorld (testClient False 5)))) CONNECTION True
   \<and> failsWith (fst (executeRequest
                    (testEnv [Rejected (ThrownError \<lparr>errorName = ''Error'',
                                errorMessage = ''Unexpected internal error''\<rparr>)])
                    (getOptions ''/test'' None) 1 (newWorld (testClient False 5)))) UNKNOWN True
   \<and> failsWith (fst (executeRequest (testEnv [Rejected (ThrownValue ''string error'')])
                    (getOptions ''/test'' None) 1 (newWorld (testClient False 5)))) UNKNOWN True
   \<and> fst (executeRequest
            (testEnv [Rejected (ThrownUnipile (new_RateLimitError ''Custom rate limit'' emptyContext))])
            (getOptions ''/test'' None) 1 (newWorld (testClient False 5))) =
       Inl (ThrownUnipile (new_RateLimitError ''Custom rate limit'' emptyContext))
   \<and> (\<exists>e. fst (request (testEnv [Resolved (mockResponse 503 [] JNull)])
                  (getOptions ''/test'' None) (newWorld (testClient False 5))) = Inl (ThrownUnipile e))"
proof -
  let ?W = "newWorld (testClient False 5)" and ?O = "getOptions ''/test'' None"
  have u: "buildUrl (testEnv os) (baseUrl (client ?W)) (path ?O) (params ?O) =
             Inr ''https://api.example.com/test''" for os
    by (rule testEnv_url)
  have f: "fetch (testEnv [x]) (fetchCalls ?W) ''https://api.example.com/test''
             (buildFetchOptions (client ?W) ?O) = x" for x
    by (rule testEnv_fetch)
  note T = executeRequest_error_classification
  have 1: "failsWith (fst (executeRequest (testEnv [Resolved (mockResponse 429 [(''retry-after'', ''60'')] JNull)])
                    ?O 1 ?W)) RATE_LIMIT True"
    using T[OF u[of "[Resolved (mockResponse 429 [(''retry-after'', ''60'')] JNull)]"] f[of "Resolved (mockResponse 429 [(''retry-after'', ''60'')] JNull)"],
        where attempt = 1 and r = "mockResponse 429 [(''retry-after'', ''60'')] JNull"]
    by (simp add: mockResponse_def)
  have 2: "failsWith (fst (executeRequest (testEnv [Resolved (mockResponse 401 [] JNull)]) ?O 1 ?W)) AUTH False"
    using T[OF u[of "[Resolved (mockResponse 401 [] JNull)]"] f[of "Resolved (mockResponse 401 [] JNull)"],
        where attempt = 1 and r = "mockResponse 401 [] JNull"]
    by (simp add: mockResponse_def)
  have 3: "failsWith (fst (executeRequest (testEnv [Resolved (mockResponse 422 [] JNull)]) ?O 1 ?W))
             VALIDATION False"
    using T[OF u[of "[Resolved (mockResponse 422 [] JNull)]"] f[of "Resolved (mockResponse 422 [] JNull)"],
        where attempt = 1 and r = "mockResponse 422 [] JNull"]
    by (simp add: mockResponse_def)
  have 4: "failsWith (fst (executeRequest (testEnv [Resolved (mockResponse 404 [] JNull)]) ?O 1 ?W))
             NOT_FOUND False"
    using T[OF u[of "[Resolved (mockResponse 404 [] JNull)]"] f[of "Resolved (mockResponse 404 [] JNull)"],
        where attempt = 1 and r = "mockResponse 404 [] JNull"]
    by (simp add: mockResponse_def)
  have 5: "failsWith (fst (executeRequest (testEnv [Resolved (mockResponse 503 [] JNull)]) ?O 1 ?W))
             UNKNOWN True"
    using T[OF u[of "[Resolved (mockResponse 503 [] JNull)]"] f[of "Resolved (mockResponse 503 [] JNull)"],
        where attempt = 1 and r = "mockResponse 503 [] JNull"]
    by (simp add: mockResponse_def)
  have 6: "failsWith (fst (executeRequest (testEnv [Resolved (mockResponse 405 [] JNull)]) ?O 1 ?W))
             UNKNOWN False"
    using T[OF u[of "[Resolved (mockResponse 405 [] JNull)]"] f[of "Resolved (mockResponse 405 [] JNull)"],
        where attempt = 1 and r = "mockResponse 405 [] JNull"]
    by (simp add: mockResponse_def)
  have 7: "failsWith (fst (executeRequest
                    (testEnv [Rejected (ThrownError \<lparr>errorName = ''AbortError'', errorMessage = ''Aborted''\<rparr>)])
                    ?O 1 ?W)) TIMEOUT True"
    using T[OF u[of "[Rejected (ThrownError \<lparr>errorName = ''AbortError'', errorMessage = ''Aborted''\<rparr>)]"] f[of "Rejected (ThrownError \<lparr>errorName = ''AbortError'', errorMessage = ''Aborted''\<rparr>)"],
        where attempt = 1 and err = "\<lparr>errorName = ''AbortError'', errorMessage = ''Aborted''\<rparr>"]
    by simp
  have 8: "failsWith (fst (executeRequest
                    (testEnv [Rejected (ThrownError \<lparr>errorName = ''Error'',
                                errorMessage = ''connect ECONNREFUSED 127.0.0.1:443''\<rparr>)])
                    ?O 1 ?W)) CONNECTION True"
    using T[OF u[of "[Rejected (ThrownError \<lparr>errorName = ''Error'',
                                errorMessage = ''connect ECONNREFUSED 127.0.0.1:443''\<rparr>)]"] f[of "Rejected (ThrownError \<lparr>errorName = ''Error'',
                                errorMessage = ''connect ECONNREFUSED 127.0.0.1:443''\<rparr>)"],
        where attempt = 1 and err = "\<lparr>errorName = ''Error'', errorMessage = ''connect ECONNREFUSED 127.0.0.1:443''\<rparr>"]
    by (simp add: connectivity_markers)
  have 9: "failsWith (fst (executeRequest
                    (testEnv [Rejected (ThrownError \<lparr>errorName = ''Error'',
                                errorMessage = ''Unexpected internal error''\<rparr>)])
                    ?O 1 ?W)) UNKNOWN True"
    using T[OF u[of "[Rejected (ThrownError \<lparr>errorName = ''Error'',
                                errorMessage = ''Unexpected internal error''\<rparr>)]"] f[of "Rejected (ThrownError \<lparr>errorName = ''Error'',
                                errorMessage = ''Unexpected internal error''\<rparr>)"],
        where attempt = 1 and err = "\<lparr>errorName = ''Error'', errorMessage = ''Unexpected internal error''\<rparr>"]
    by (simp add: connectivity_markers)
  have 10: "failsWith (fst (executeRequest (testEnv [Rejected (ThrownValue ''string error'')]) ?O 1 ?W))
              UNKNOWN True"
    using T[OF u[of "[Rejected (ThrownValue ''string error'')]"] f[of "Rejected (ThrownValue ''string error'')"],
        where attempt = 1 and v = "''string error''"]
    by simp
  have 11: "fst (executeRequest
            (testEnv [Rejected (ThrownUnipile (new_RateLimitError ''Custom rate limit'' emptyContext))])
            ?O 1 ?W) =
       Inl (ThrownUnipile (new_RateLimitError ''Custom rate limit'' emptyContext))"
    using T[OF u[of "[Rejected (ThrownUnipile (new_RateLimitError ''Custom rate limit'' emptyContext))]"] f[of "Rejected (ThrownUnipile (new_RateLimitError ''Custom rate limit'' emptyContext))"],
        where attempt = 1 and e = "new_RateLimitError ''Custom rate limit'' emptyContext"]
    by simp
  have "\<exists>x. fst (request (testEnv [Resolved (mockResponse 503 [] JNull)]) ?O ?W) = Inl x"
    by (simp add: request_def checkRateLimit_def readClock_def setRateLimiter_def shouldWait_def
        backoffWait_def limiter_defs fixture_defs executeRequest_def handleResponse_def
        wrapThrown_def error_defs safeParseJson_def extractErrorMessage_def emptyContext_def
        buildFetchOptions_def split: prod.splits)
  then obtain x where x: "fst (request (testEnv [Resolved (mockResponse 503 [] JNull)]) ?O ?W) = Inl x"
    by blast
  have 12: "\<exists>e. fst (request (testEnv [Resolved (mockResponse 503 [] JNull)]) ?O ?W) = Inl (ThrownUnipile e)"
    using T[OF u[of "[Resolved (mockResponse 503 [] JNull)]"] f[of "Resolved (mockResponse 503 [] JNull)"],
        where thrown = x] x
    by simp
  show ?thesis
    using 1 2 3 4 5 6 7 8 9 10 11 12 by blast
qed

theorem request_rate_limited_without_retry_witness:
  "(\<exists>e. fst (request (testEnv []) (getOptions ''/test'' (Some ''acc-1''))
               (setRateLimiter
                  (recordRateLimitError (rateLimiter (testClient False 5)) ''acc-1'' (Some 6000) 1000)
                  (newWorld (testClient False 5)))) = Inl (ThrownUnipile e) \<and>
        category e = RATE_LIMIT \<and> rateLimitResetAt (errContext e) = Some (TimeValue 6002))
   \<and> fetchCalls (snd (request (testEnv []) (getOptions ''/test'' (Some ''acc-1''))
               (setRateLimiter
                  (recordRateLimitError (rateLimiter (testClient False 5)) ''acc-1'' (Some 6000) 1000)
                  (newWorld (testClient False 5))))) = 0
   \<and> sleeps (snd (request (testEnv []) (getOptions ''/test'' (Some ''acc-1''))
               (setRateLimiter
                  (recordRateLimitError (rateLimiter (testClient False 5)) ''acc-1'' (Some 6000) 1000)
                  (newWorld (testClient False 5))))) = []"
proof -
  let ?W = "setRateLimiter
              (recordRateLimitError (rateLimiter (testClient False 5)) ''acc-1'' (Some 6000) 1000)
              (newWorld (testClient False 5))"
  let ?O = "getOptions ''/test'' (Some ''acc-1'')"
  let ?E = "testEnv []"
  have w: "fst (shouldWait (rateLimiter (client ?W)) (orDefault (optAccountId ?O) ''global'')
                  (clock ?E (clockReads ?W)) (clock ?E (clockReads ?W + 1))) = 5000"
    by (simp add: fixture_defs setRateLimiter_def recordRateLimitError_def shouldWait_def limiter_defs)
  have p: "(0::int) < 5000" by simp
  have r: "\<not> enableRetry (client ?W)"
    by (simp add: fixture_defs setRateLimiter_def)
  have c: "clock ?E (clockReads ?W + 2) + 5000 = 6002" "fetchCalls ?W = 0" "sleeps ?W = []"
    "isTimeValue 6002"
    by (simp_all add: fixture_defs setRateLimiter_def isTimeValue_def)
  from request_rate_limited_without_retry[OF w p r] c show ?thesis
    by auto
qed

theorem request_nonretryable_not_retried_witness:
  "failsWith
     (fst (request (testEnv [Resolved (mockResponse 400 [] (JObject [(''message'', JString ''Bad request'')]))])
             (getOptions ''/test'' None) (newWorld (testClient True 3)))) VALIDATION False
   \<and> fetchCalls
        (snd (request (testEnv [Resolved (mockResponse 400 [] (JObject [(''message'', JString ''Bad request'')]))])
                (getOptions ''/test'' None) (newWorld (testClient True 3)))) = 1
   \<and> failsWith
        (fst (attemptLoop (testEnv [Resolved (mockResponse 404 [] JNull)]) (getOptions ''/test'' None)
                ''global'' 3 2 None (newWorld (testClient True 3)))) NOT_FOUND False
   \<and> fetchCalls
        (snd (attemptLoop (testEnv [Resolved (mockResponse 404 [] JNull)]) (getOptions ''/test'' None)
                ''global'' 3 2 None (newWorld (testClient True 3)))) = 1"
proof -
  let ?r = "mockResponse 400 [] (JObject [(''message'', JString ''Bad request'')])"
  let ?E = "testEnv [Resolved ?r]"
  let ?O = "getOptions ''/test'' None"
  let ?W = "newWorld (testClient True 3)"
  let ?V = "snd (checkRateLimit ?E ''global'' ?W)"
  have g: "fst (checkRateLimit ?E ''global'' ?W) = None"
    by (simp add: checkRateLimit_def readClock_def setRateLimiter_def shouldWait_def backoffWait_def
        limiter_defs fixture_defs split: prod.splits)
  then have c: "checkRateLimit ?E (orDefault (optAccountId ?O) ''global'') ?W = (None, ?V)"
    by (simp add: getOptions_def orDefault_def prod_eq_iff)
  have fr: "fetchCalls ?V = fetchCalls ?W" "baseUrl (client ?V) = baseUrl (client ?W)"
    using checkRateLimit_frame[of ?E "''global''" ?W None ?V] c
    by (simp_all add: getOptions_def orDefault_def)
  have m: "enableRetry (client ?W) \<longrightarrow> 1 \<le> maxRetries (client ?W)"
    by (simp add: fixture_defs)
  have u: "buildUrl ?E (baseUrl (client ?V)) (path ?O) (params ?O) = Inr ''https://api.example.com/test''"
    unfolding fr by (rule testEnv_url)
  have f: "fetch ?E (fetchCalls ?V) ''https://api.example.com/test'' (buildFetchOptions (client ?V) ?O)
             = Resolved ?r"
    unfolding fr by (rule testEnv_fetch)
  have "failsWith (fst (executeRequest ?E ?O 1 ?V)) VALIDATION False"
    by (rule executeRequest_resolved[OF u f]) (simp add: handleResponse_status(3) mockResponse_def)
  then obtain e where e: "fst (executeRequest ?E ?O 1 ?V) = Inl (ThrownUnipile e)"
    "category e = VALIDATION" "\<not> isRetryable e"
    by (auto simp add: failsWith_def)
  have 1: "fst (request ?E ?O ?W) = Inl (ThrownUnipile e) \<and> fetchCalls (snd (request ?E ?O ?W)) = fetchCalls ?W + 1"
    using request_nonretryable_not_retried[where env = ?E and options = ?O and w = ?W and ?w0.0 = ?V
        and e = e] c m e by blast
  let ?r2 = "mockResponse 404 [] JNull"
  let ?E2 = "testEnv [Resolved ?r2]"
  have "failsWith (fst (executeRequest ?E2 ?O 2 ?W)) NOT_FOUND False"
    by (rule executeRequest_resolved[OF testEnv_url testEnv_fetch])
       (simp add: handleResponse_status(4) mockResponse_def)
  then obtain e2 w2 where e2: "executeRequest ?E2 ?O 2 ?W = (Inl (ThrownUnipile e2), w2)"
    "category e2 = NOT_FOUND" "\<not> isRetryable e2"
    by (cases "executeRequest ?E2 ?O 2 ?W") (auto simp add: failsWith_def)
  have 2: "attemptLoop ?E2 ?O ''global'' 3 2 None ?W = (Inl (ThrownUnipile e2), w2) \<and>
           fetchCalls w2 = fetchCalls ?W + 1"
    using request_nonretryable_not_retried[where env = ?E2 and options = ?O and w = ?W and attempt = 2
        and maxAttempts = 3 and e = e2 and ?w1.0 = w2 and acc = "''global''" and lastError = None] e2
    by simp
  have z: "fetchCalls ?W = 0" by (simp add: newWorld_def)
  show ?thesis
    using 1 2 e e2 z by (simp add: failsWith_def)
qed

text \<open>
  With retry enabled and \<open>maxRetries = 0\<close> a request makes no attempt at all: the
  transport, which would answer 400, is not invoked, and the request throws the error of
  the statement after the loop.
\<close>

theorem request_nonretryable_not_retried_counterexample:
  "enableRetry (testClient True 0) \<and> maxRetries (testClient True 0) = 0
   \<and> fetch (testEnv [Resolved (mockResponse 400 [] JNull)]) 0 ''https://api.example.com/test''
        (buildFetchOptions (testClient True 0) (getOptions ''/test'' None)) =
       Resolved (mockResponse 400 [] JNull)
   \<and> fetchCalls (snd (request (testEnv [Resolved (mockResponse 400 [] JNull)])
                         (getOptions ''/test'' None) (newWorld (testClient True 0)))) = 0
   \<and> fst (request (testEnv [Resolved (mockResponse 400 [] JNull)])
             (getOptions ''/test'' None) (newWorld (testClient True 0))) =
       Inl (ThrownUnipile
              (new_UnipileError ''Request failed after retries'' UNKNOWN emptyContext False))"
  by (simp add: request_def checkRateLimit_def readClock_def setRateLimiter_def shouldWait_def
      backoffWait_def limiter_defs fixture_defs split: prod.splits)

section \<open>The model on scenarios of the test suite\<close>

text \<open>
  Two end-to-end scenarios of http-client.spec.ts, run on the model: with retry enabled
  and three attempts allowed, a 429 with \<open>Retry-After: 0\<close> followed by a 200 with a JSON
  body gives that body after exactly two transport calls; with two attempts allowed, two
  500 responses give the error of the second one after exactly two transport calls.
\<close>

lemmas request_defs = request_def checkRateLimit_def readClock_def setRateLimiter_def
  shouldWait_def backoffWait_def executeRequest_def handleResponse_def wrapThrown_def
  safeParseJson_def extractErrorMessage_def stringProperty_def emptyContext_def
  buildFetchOptions_def backoffBeforeRetry_def getRetryAfterMs_def recordRateLimitError_def
  recordRateLimitError_date_def new_Date_def isTimeValue_def
  recordSuccess_def parseRateLimitHeaders_def asError_def sleep_def getCurrentBackoff_def
  str_includes_def sublist_code

lemma scenario_429_then_200:
  "fetchCalls (snd (request
      (testEnv [Resolved (mockResponse 429 [(''retry-after'', ''0'')] JNull),
                Resolved (mockResponse 200 [(''content-type'', ''application/json'')]
                            (JObject [(''success'', JBoolean True)]))])
      (getOptions ''/test'' None) (newWorld (testClient True 3)))) = 2
   \<and> map_sum id data (fst (request
      (testEnv [Resolved (mockResponse 429 [(''retry-after'', ''0'')] JNull),
                Resolved (mockResponse 200 [(''content-type'', ''application/json'')]
                            (JObject [(''success'', JBoolean True)]))])
      (getOptions ''/test'' None) (newWorld (testClient True 3)))) =
       Inr (DataJson (JObject [(''success'', JBoolean True)]))"
  by (simp add: request_defs limiter_defs fixture_defs error_defs parse_defs split: prod.splits)

lemma scenario_500_twice:
  "fetchCalls (snd (request
      (testEnv [Resolved (mockResponse 500 [] (JObject [(''message'', JString ''Server error 1'')])),
                Resolved (mockResponse 500 [] (JObject [(''message'', JString ''Server error 2'')]))])
      (getOptions ''/test'' None) (newWorld (testClient True 2)))) = 2
   \<and> (\<exists>e. fst (request
      (testEnv [Resolved (mockResponse 500 [] (JObject [(''message'', JString ''Server error 1'')])),
                Resolved (mockResponse 500 [] (JObject [(''message'', JString ''Server error 2'')]))])
      (getOptions ''/test'' None) (newWorld (testClient True 2))) = Inl (ThrownUnipile e)
        \<and> message e = ''Server error 2'' \<and> category e = UNKNOWN)"
  by (simp add: request_defs limiter_defs fixture_defs error_defs parse_defs split: prod.splits)

section \<open>Properties of fromEnv\<close>

text \<open>
  C10: \<open>fromEnv\<close> treats a variable set to the empty string as it treats an absent one.
  When UNIPILE_DSN is undefined or empty it throws the error that names UNIPILE_DSN; when
  UNIPILE_DSN is set and UNIPILE_API_KEY is undefined or empty it throws the error that
  names UNIPILE_API_KEY; so in every environment where one of the two is undefined or
  empty the result is a thrown error and no client is constructed. Replacing an empty value
  of either variable by no value does not change the result.
\<close>

theorem fromEnv_missing_variable:
  "(processEnv ''UNIPILE_DSN'' = None \<or> processEnv ''UNIPILE_DSN'' = Some [] \<longrightarrow>
      fromEnv processEnv =
        Inl \<lparr>errorName = ''Error'', errorMessage = ''UNIPILE_DSN environment variable is required''\<rparr>)
   \<and> (processEnv ''UNIPILE_DSN'' \<noteq> None \<and> processEnv ''UNIPILE_DSN'' \<noteq> Some [] \<and>
      (processEnv ''UNIPILE_API_KEY'' = None \<or> processEnv ''UNIPILE_API_KEY'' = Some []) \<longrightarrow>
      fromEnv processEnv =
        Inl \<lparr>errorName = ''Error'',
             errorMessage = ''UNIPILE_API_KEY environment variable is required''\<rparr>)
   \<and> (processEnv ''UNIPILE_DSN'' = None \<or> processEnv ''UNIPILE_DSN'' = Some [] \<or>
      processEnv ''UNIPILE_API_KEY'' = None \<or> processEnv ''UNIPILE_API_KEY'' = Some [] \<longrightarrow>
      (\<exists>err. fromEnv processEnv = Inl err))
   \<and> fromEnv (processEnv(''UNIPILE_DSN'' \<mapsto> [])) = fromEnv (processEnv(''UNIPILE_DSN'' := None))
   \<and> fromEnv (processEnv(''UNIPILE_API_KEY'' \<mapsto> [])) =
       fromEnv (processEnv(''UNIPILE_API_KEY'' := None))"
  by (auto simp add: fromEnv_def Let_def)

theorem fromEnv_missing_variable_witness:
  "fromEnv [''UNIPILE_API_KEY'' \<mapsto> ''env-api-key''] =
     Inl \<lparr>errorName = ''Error'', errorMessage = ''UNIPILE_DSN environment variable is required''\<rparr>
   \<and> fromEnv [''UNIPILE_DSN'' \<mapsto> ''api.example.com:443'', ''UNIPILE_API_KEY'' \<mapsto> []] =
     Inl \<lparr>errorName = ''Error'', errorMessage = ''UNIPILE_API_KEY environment variable is required''\<rparr>
   \<and> (\<exists>err. fromEnv [''UNIPILE_DSN'' \<mapsto> [], ''UNIPILE_API_KEY'' \<mapsto> ''env-api-key''] = Inl err)"
proof -
  have 1: "fromEnv [''UNIPILE_API_KEY'' \<mapsto> ''env-api-key''] =
     Inl \<lparr>errorName = ''Error'', errorMessage = ''UNIPILE_DSN environment variable is required''\<rparr>"
    using fromEnv_missing_variable[of "[''UNIPILE_API_KEY'' \<mapsto> ''env-api-key'']"] by simp
  have 2: "fromEnv [''UNIPILE_DSN'' \<mapsto> ''api.example.com:443'', ''UNIPILE_API_KEY'' \<mapsto> []] =
     Inl \<lparr>errorName = ''Error'', errorMessage = ''UNIPILE_API_KEY environment variable is required''\<rparr>"
    using fromEnv_missing_variable[of
        "[''UNIPILE_DSN'' \<mapsto> ''api.example.com:443'', ''UNIPILE_API_KEY'' \<mapsto> []]"] by simp
  have 3: "\<exists>err. fromEnv [''UNIPILE_DSN'' \<mapsto> [], ''UNIPILE_API_KEY'' \<mapsto> ''env-api-key''] = Inl err"
    using fromEnv_missing_variable[of
        "[''UNIPILE_DSN'' \<mapsto> [], ''UNIPILE_API_KEY'' \<mapsto> ''env-api-key'']"] by simp
  show ?thesis using 1 2 3 by simp
qed

end
